theory Spec2Isabelle
  imports Main "HOL-Library.Word"
begin

section \<open>Python values used by the two modules\<close>

text \<open>
  A Python \<open>str\<close> is a sequence of Unicode code points, a \<open>bytes\<close> object a sequence
  of octets. String literals of the source are written with \<open>lit\<close>.
\<close>

type_synonym pystr = "nat list"
type_synonym byte = "8 word"

definition lit :: "string \<Rightarrow> pystr" where
  "lit s = map of_char s"

text \<open>The exceptions that the modelled calls can raise.\<close>

datatype exn =
    AttributeError
  | TypeError
  | ValueError
  | OSError
  | UnicodeEncodeError
  | TimeoutExpired
  | FileNotFoundError
  | CalledProcessError
  | UnicodeDecodeError
  | EndOfStream

subsection \<open>\<open>str.strip()\<close>\<close>

text \<open>
  \<open>str.strip()\<close> without argument removes the characters for which \<open>str.isspace\<close>
  holds from both ends of the string.
\<close>

definition py_isspace :: "nat \<Rightarrow> bool" where
  "py_isspace c =
     ((9 \<le> c \<and> c \<le> 13) \<or> (28 \<le> c \<and> c \<le> 32) \<or> c = 133 \<or> c = 160 \<or> c = 5760
      \<or> (8192 \<le> c \<and> c \<le> 8202) \<or> c = 8232 \<or> c = 8233 \<or> c = 8239 \<or> c = 8287
      \<or> c = 12288)"

definition lstrip :: "pystr \<Rightarrow> pystr" where
  "lstrip s = dropWhile py_isspace s"

definition rstrip :: "pystr \<Rightarrow> pystr" where
  "rstrip s = rev (dropWhile py_isspace (rev s))"

definition strip :: "pystr \<Rightarrow> pystr" where
  "strip s = rstrip (lstrip s)"

subsection \<open>\<open>str.encode('utf-8')\<close>\<close>

text \<open>
  The strict UTF-8 encoder: a surrogate code point (\<open>U+D800\<close> to \<open>U+DFFF\<close>) raises
  \<open>UnicodeEncodeError\<close>; every other code point becomes one to four octets. A Python
  string holds code points up to \<open>U+10FFFF\<close> only.
\<close>

definition utf8_bytes :: "nat \<Rightarrow> byte list" where
  "utf8_bytes c =
     (if c < 128 then [of_nat c]
      else if c < 2048 then [of_nat (192 + c div 64), of_nat (128 + c mod 64)]
      else if c < 65536 then
        [of_nat (224 + c div 4096), of_nat (128 + (c div 64) mod 64), of_nat (128 + c mod 64)]
      else
        [of_nat (240 + c div 262144), of_nat (128 + (c div 4096) mod 64),
         of_nat (128 + (c div 64) mod 64), of_nat (128 + c mod 64)])"

definition is_surrogate :: "nat \<Rightarrow> bool" where
  "is_surrogate c = (55296 \<le> c \<and> c \<le> 57343)"

fun utf8_encode :: "pystr \<Rightarrow> exn + byte list" where
  "utf8_encode [] = Inr []"
| "utf8_encode (c # cs) =
     (if is_surrogate c then Inl UnicodeEncodeError
      else (case utf8_encode cs of
              Inl e \<Rightarrow> Inl e
            | Inr bs \<Rightarrow> Inr (utf8_bytes c @ bs)))"

subsection \<open>\<open>bytes.decode('utf-8', errors='replace')\<close>\<close>

text \<open>
  The decoder never raises: every maximal ill-formed prefix is replaced by one
  \<open>U+FFFD\<close> and decoding resumes right after it.
\<close>

definition replacement_char :: nat where
  "replacement_char = 65533"

definition is_cont :: "byte \<Rightarrow> bool" where
  "is_cont b = (128 \<le> b \<and> b \<le> 191)"

definition second_ok :: "byte \<Rightarrow> byte \<Rightarrow> bool" where
  "second_ok lead b =
     (if lead = 224 then 160 \<le> b \<and> b \<le> 191
      else if lead = 237 then 128 \<le> b \<and> b \<le> 159
      else if lead = 240 then 144 \<le> b \<and> b \<le> 191
      else if lead = 244 then 128 \<le> b \<and> b \<le> 143
      else is_cont b)"

definition low6 :: "byte \<Rightarrow> nat" where
  "low6 b = unat b mod 64"

fun utf8_decode_replace :: "byte list \<Rightarrow> pystr" where
  "utf8_decode_replace [] = []"
| "utf8_decode_replace (b # bs) =
     (if b < 128 then unat b # utf8_decode_replace bs
      else if b < 194 \<or> 244 < b then replacement_char # utf8_decode_replace bs
      else (case bs of
              [] \<Rightarrow> [replacement_char]
            | c # cs \<Rightarrow>
                if \<not> second_ok b c then replacement_char # utf8_decode_replace bs
                else if b < 224 then
                  ((unat b mod 32) * 64 + low6 c) # utf8_decode_replace cs
                else (case cs of
                        [] \<Rightarrow> [replacement_char]
                      | d # ds \<Rightarrow>
                          if \<not> is_cont d then replacement_char # utf8_decode_replace cs
                          else if b < 240 then
                            ((unat b mod 16) * 4096 + low6 c * 64 + low6 d)
                              # utf8_decode_replace ds
                          else (case ds of
                                  [] \<Rightarrow> [replacement_char]
                                | e # es \<Rightarrow>
                                    if \<not> is_cont e
                                    then replacement_char # utf8_decode_replace ds
                                    else ((unat b mod 8) * 262144 + low6 c * 4096
                                            + low6 d * 64 + low6 e)
                                           # utf8_decode_replace es))))"

section \<open>The sink connection (\<open>stdio_server.py\<close>, lines 19 to 50)\<close>

text \<open>
  The process state that the logging code touches: the module global \<open>_log_socket\<close>, the
  behaviour of the network for the calls still to come, and the trace of what the code
  did to the outside world. A socket is named by a number. The connection attempt of
  \<open>_get_log_socket\<close> (socket creation followed by \<open>connect\<close>) takes its outcome from
  \<open>connect_script\<close>, a call of \<open>sendall\<close> from \<open>sendall_script\<close>; an exhausted script
  means that the sink no longer answers. Writing a line to \<open>sys.stderr\<close> and flushing it
  is one step: while \<open>stderr_ok\<close> holds the stream accepts it, which is one event of the
  trace; otherwise (the pipe behind the stream is broken, say) the step raises \<open>OSError\<close>
  and nothing reaches the stream.
\<close>

datatype conn_outcome = SocketFails | ConnectFails | Connected

datatype event =
    Connect conn_outcome
  | Sendall nat "byte list" bool
  | Stderr pystr

record world =
  log_socket :: "nat option"
  connect_script :: "conn_outcome list"
  sendall_script :: "bool list"
  next_socket :: nat
  stderr_ok :: bool
  trace :: "event list"

definition open_connection :: "world \<Rightarrow> (exn + nat) \<times> world" where
  "open_connection w =
     (case connect_script w of
        [] \<Rightarrow> (Inl OSError, w\<lparr>trace := trace w @ [Connect ConnectFails]\<rparr>)
      | out # rest \<Rightarrow>
          (let w' = w\<lparr>connect_script := rest, trace := trace w @ [Connect out]\<rparr>
           in if out = Connected
              then (Inr (next_socket w), w'\<lparr>next_socket := Suc (next_socket w)\<rparr>)
              else (Inl OSError, w')))"

definition get_log_socket :: "world \<Rightarrow> nat option \<times> world" where
  "get_log_socket w =
     (case log_socket w of
        Some s \<Rightarrow> (Some s, w)
      | None \<Rightarrow>
          (case open_connection w of
             (Inr s, w') \<Rightarrow> (Some s, w'\<lparr>log_socket := Some s\<rparr>)
           | (Inl e, w') \<Rightarrow> (None, w'\<lparr>log_socket := None\<rparr>)))"

definition sock_sendall :: "nat \<Rightarrow> byte list \<Rightarrow> world \<Rightarrow> (exn + unit) \<times> world" where
  "sock_sendall sock bs w =
     (case sendall_script w of
        [] \<Rightarrow> (Inl OSError, w\<lparr>trace := trace w @ [Sendall sock bs False]\<rparr>)
      | ok # rest \<Rightarrow>
          (if ok then Inr () else Inl OSError,
           w\<lparr>sendall_script := rest, trace := trace w @ [Sendall sock bs ok]\<rparr>))"

definition stderr_write :: "pystr \<Rightarrow> world \<Rightarrow> (exn + unit) \<times> world" where
  "stderr_write s w =
     (if stderr_ok w then (Inr (), w\<lparr>trace := trace w @ [Stderr s]\<rparr>)
      else (Inl OSError, w))"

text \<open>
  The body of the \<open>try\<close> in \<open>_tcp_write\<close>: format, encode, send. The two writes to
  \<open>sys.stderr\<close> stand outside every \<open>try\<close>: what they raise, \<open>_tcp_write\<close> raises.
\<close>

definition send_frame :: "nat \<Rightarrow> pystr \<Rightarrow> world \<Rightarrow> (exn + unit) \<times> world" where
  "send_frame sock message w =
     (case utf8_encode (lit ''-----\<newline>'' @ message @ lit ''\<newline>'') of
        Inl e \<Rightarrow> (Inl e, w)
      | Inr bs \<Rightarrow> sock_sendall sock bs w)"

definition tcp_write :: "pystr \<Rightarrow> world \<Rightarrow> (exn + unit) \<times> world" where
  "tcp_write message w =
     (case get_log_socket w of
        (Some sock, w1) \<Rightarrow>
          (case send_frame sock message w1 of
             (Inr u, w2) \<Rightarrow> (Inr u, w2)
           | (Inl e, w2) \<Rightarrow>
               stderr_write (message @ lit ''\<newline>'') (w2\<lparr>log_socket := None\<rparr>))
      | (None, w1) \<Rightarrow> stderr_write (message @ lit ''\<newline>'') w1)"

section \<open>Message values and their mirroring (\<open>stdio_server.py\<close>, lines 56 to 149)\<close>

text \<open>
  The wrappers inspect a message only through \<open>isinstance\<close>, \<open>hasattr\<close>, truthiness,
  \<open>str\<close> and the two serialisation methods. An object is therefore given by its truth
  value, its attributes \<open>message\<close> and \<open>root\<close> (absent, or holding a value), what calling
  \<open>model_dump_json()\<close> and \<open>model_dump()\<close> does, and what \<open>str\<close> of it does. The
  dictionary that \<open>model_dump()\<close> returns is kept abstract (type \<open>'d\<close>).
\<close>

datatype 'a capability = Absent | Raises exn | Returns 'a

datatype 'd pyval =
    PStr pystr
  | PBytes "byte list"
  | PNone
  | PObj bool "'d pyval option" "'d pyval option" "pystr capability" "'d capability"
      "exn + pystr"

text \<open>
  The library functions whose result no wrapper looks into: \<open>json.dumps\<close> on a dumped
  dictionary, and \<open>str\<close> of a \<open>bytes\<close> object.
\<close>

record 'd pylib =
  json_dumps :: "'d \<Rightarrow> exn + pystr"
  bytes_str :: "byte list \<Rightarrow> pystr"

fun truthy :: "'d pyval \<Rightarrow> bool" where
  "truthy (PStr s) = (s \<noteq> [])"
| "truthy (PBytes bs) = (bs \<noteq> [])"
| "truthy PNone = False"
| "truthy (PObj t m r dj d st) = t"

fun attr_message :: "'d pyval \<Rightarrow> 'd pyval option" where
  "attr_message (PObj t m r dj d st) = m"
| "attr_message v = None"

fun attr_root :: "'d pyval \<Rightarrow> 'd pyval option" where
  "attr_root (PObj t m r dj d st) = r"
| "attr_root v = None"

fun attr_model_dump_json :: "'d pyval \<Rightarrow> pystr capability" where
  "attr_model_dump_json (PObj t m r dj d st) = dj"
| "attr_model_dump_json v = Absent"

fun attr_model_dump :: "'d pyval \<Rightarrow> 'd capability" where
  "attr_model_dump (PObj t m r dj d st) = d"
| "attr_model_dump v = Absent"

text \<open>Calling a method: a missing attribute raises \<open>AttributeError\<close>.\<close>

fun call :: "'a capability \<Rightarrow> exn + 'a" where
  "call Absent = Inl AttributeError"
| "call (Raises e) = Inl e"
| "call (Returns x) = Inr x"

fun py_str :: "'d pylib \<Rightarrow> 'd pyval \<Rightarrow> exn + pystr" where
  "py_str lib (PStr s) = Inr s"
| "py_str lib (PBytes bs) = Inr (bytes_str lib bs)"
| "py_str lib PNone = Inr (lit ''None'')"
| "py_str lib (PObj t m r dj d st) = st"

text \<open>\<open>hasattr(line, 'message') and hasattr(line.message, 'root')\<close>\<close>

definition has_message_root :: "'d pyval \<Rightarrow> bool" where
  "has_message_root v =
     (case attr_message v of
        None \<Rightarrow> False
      | Some m \<Rightarrow> attr_root m \<noteq> None)"

definition message_root :: "'d pyval \<Rightarrow> 'd pyval" where
  "message_root v = the (attr_root (the (attr_message v)))"

text \<open>\<open>_tcp_write(f"{tag}{json.dumps(x.model_dump())}")\<close>\<close>

definition write_model_dump ::
  "'d pylib \<Rightarrow> pystr \<Rightarrow> 'd pyval \<Rightarrow> world \<Rightarrow> (exn + unit) \<times> world" where
  "write_model_dump lib tag x w =
     (case call (attr_model_dump x) of
        Inl e \<Rightarrow> (Inl e, w)
      | Inr d \<Rightarrow>
          (case json_dumps lib d of
             Inl e \<Rightarrow> (Inl e, w)
           | Inr s \<Rightarrow> tcp_write (tag @ s) w))"

text \<open>\<open>_tcp_write(f"{tag}{x.model_dump_json()}")\<close>\<close>

definition write_model_dump_json ::
  "pystr \<Rightarrow> 'd pyval \<Rightarrow> world \<Rightarrow> (exn + unit) \<times> world" where
  "write_model_dump_json tag x w =
     (case call (attr_model_dump_json x) of
        Inl e \<Rightarrow> (Inl e, w)
      | Inr s \<Rightarrow> tcp_write (tag @ s) w)"

text \<open>
  The \<open>try\<close> / bare \<open>except\<close> pair of the nested branches: whatever the \<open>try\<close> body
  raises, the handler runs on the state the body left behind.
\<close>

definition write_root ::
  "'d pylib \<Rightarrow> pystr \<Rightarrow> 'd pyval \<Rightarrow> world \<Rightarrow> (exn + unit) \<times> world" where
  "write_root lib tag x w =
     (case write_model_dump_json tag x w of
        (Inr u, w') \<Rightarrow> (Inr u, w')
      | (Inl e, w') \<Rightarrow> write_model_dump lib tag x w')"

text \<open>\<open>_tcp_write(f"{tag}{str(x)}")\<close>\<close>

definition write_str ::
  "'d pylib \<Rightarrow> pystr \<Rightarrow> 'd pyval \<Rightarrow> world \<Rightarrow> (exn + unit) \<times> world" where
  "write_str lib tag x w =
     (case py_str lib x of
        Inl e \<Rightarrow> (Inl e, w)
      | Inr s \<Rightarrow> tcp_write (tag @ s) w)"

text \<open>The \<open>if\<close> / \<open>elif\<close> chain inside \<open>logged_receive\<close> (lines 70 to 89).\<close>

fun mirror_input :: "'d pylib \<Rightarrow> 'd pyval \<Rightarrow> world \<Rightarrow> (exn + unit) \<times> world" where
  "mirror_input lib (PStr s) w = tcp_write (lit ''INPUT: '' @ strip s) w"
| "mirror_input lib line w =
     (if has_message_root line then write_root lib (lit ''INPUT: '') (message_root line) w
      else if attr_root line \<noteq> None
        then write_root lib (lit ''INPUT: '') (the (attr_root line)) w
      else if attr_model_dump_json line \<noteq> Absent
        then write_model_dump_json (lit ''INPUT: '') line w
      else if attr_model_dump line \<noteq> Absent
        then write_model_dump lib (lit ''INPUT: '') line w
      else write_str lib (lit ''INPUT: '') line w)"

text \<open>The chain inside \<open>logged_send\<close> (lines 101 to 122).\<close>

fun mirror_output :: "'d pylib \<Rightarrow> 'd pyval \<Rightarrow> world \<Rightarrow> (exn + unit) \<times> world" where
  "mirror_output lib (PStr s) w = tcp_write (lit ''OUTPUT: '' @ s) w"
| "mirror_output lib (PBytes bs) w = tcp_write (lit ''OUTPUT: '' @ utf8_decode_replace bs) w"
| "mirror_output lib data w =
     (if has_message_root data then write_root lib (lit ''OUTPUT: '') (message_root data) w
      else if attr_root data \<noteq> None
        then write_root lib (lit ''OUTPUT: '') (the (attr_root data)) w
      else if attr_model_dump_json data \<noteq> Absent
        then write_model_dump_json (lit ''OUTPUT: '') data w
      else if attr_model_dump data \<noteq> Absent
        then write_model_dump lib (lit ''OUTPUT: '') data w
      else write_str lib (lit ''OUTPUT: '') data w)"

text \<open>The chain inside \<open>logged_write\<close> (lines 133 to 142): no nested branches.\<close>

fun mirror_write :: "'d pylib \<Rightarrow> 'd pyval \<Rightarrow> world \<Rightarrow> (exn + unit) \<times> world" where
  "mirror_write lib (PStr s) w = tcp_write (lit ''OUTPUT: '' @ s) w"
| "mirror_write lib (PBytes bs) w = tcp_write (lit ''OUTPUT: '' @ utf8_decode_replace bs) w"
| "mirror_write lib data w =
     (if attr_model_dump_json data \<noteq> Absent
        then write_model_dump_json (lit ''OUTPUT: '') data w
      else if attr_model_dump data \<noteq> Absent
        then write_model_dump lib (lit ''OUTPUT: '') data w
      else write_str lib (lit ''OUTPUT: '') data w)"

subsection \<open>The wrapped operations\<close>

text \<open>
  The original operations belong to the transport: \<open>receive\<close> takes the channel state
  and returns a message or raises, \<open>send\<close> and \<open>write\<close> take the message too and return a
  result (type \<open>'r\<close>) or raise. A wrapped operation runs on the pair of the channel state
  and the process state.
\<close>

type_synonym ('c, 'd) receive_op = "'c \<Rightarrow> (exn + 'd pyval) \<times> 'c"
type_synonym ('c, 'd, 'r) send_op = "'d pyval \<Rightarrow> 'c \<Rightarrow> (exn + 'r) \<times> 'c"

definition logged_receive ::
  "'d pylib \<Rightarrow> ('c \<times> world, 'd) receive_op \<Rightarrow> ('c \<times> world, 'd) receive_op" where
  "logged_receive lib original_receive st =
     (case original_receive st of
        (Inl e, st') \<Rightarrow> (Inl e, st')
      | (Inr line, (c, w)) \<Rightarrow>
          (if truthy line
           then (case mirror_input lib line w of
                   (Inl e, w') \<Rightarrow> (Inl e, (c, w'))
                 | (Inr u, w') \<Rightarrow> (Inr line, (c, w')))
           else (Inr line, (c, w))))"

definition logged_send ::
  "'d pylib \<Rightarrow> ('c \<times> world, 'd, 'r) send_op \<Rightarrow> ('c \<times> world, 'd, 'r) send_op" where
  "logged_send lib original_send data st =
     (case st of (c, w) \<Rightarrow>
        (if truthy data
         then (case mirror_output lib data w of
                 (Inl e, w') \<Rightarrow> (Inl e, (c, w'))
               | (Inr u, w') \<Rightarrow> original_send data (c, w'))
         else original_send data (c, w)))"

definition logged_write ::
  "'d pylib \<Rightarrow> ('c \<times> world, 'd, 'r) send_op \<Rightarrow> ('c \<times> world, 'd, 'r) send_op" where
  "logged_write lib original_write data st =
     (case st of (c, w) \<Rightarrow>
        (if truthy data
         then (case mirror_write lib data w of
                 (Inl e, w') \<Rightarrow> (Inl e, (c, w'))
               | (Inr u, w') \<Rightarrow> original_write data (c, w'))
         else original_write data (c, w)))"

subsection \<open>Wrapping the streams and replacing the factory\<close>

text \<open>
  A stream pair, seen through the three attributes that \<open>wrapper\<close> probes with
  \<open>hasattr\<close>: each is absent or holds the operation.
\<close>

record ('c, 'd, 'r) streams =
  receive_attr :: "('c \<times> world, 'd) receive_op option"
  send_attr :: "('c \<times> world, 'd, 'r) send_op option"
  write_attr :: "('c \<times> world, 'd, 'r) send_op option"

definition wrap_streams :: "'d pylib \<Rightarrow> ('c, 'd, 'r) streams \<Rightarrow> ('c, 'd, 'r) streams" where
  "wrap_streams lib s =
     \<lparr>receive_attr = map_option (logged_receive lib) (receive_attr s),
      send_attr = map_option (logged_send lib) (send_attr s),
      write_attr = map_option (logged_write lib) (write_attr s)\<rparr>"

text \<open>
  \<open>logged_stdio_server\<close> calls the factory held by the global
  \<open>original_stdio_server\<close> of its module instance, here a parameter; its arguments
  (\<open>stdin\<close>, \<open>stdout\<close>) are passed on untouched.
\<close>

definition logged_stdio_server ::
  "'d pylib \<Rightarrow> ('a \<Rightarrow> ('c, 'd, 'r) streams) \<Rightarrow> ('a \<Rightarrow> ('c, 'd, 'r) streams)" where
  "logged_stdio_server lib original_stdio_server args =
     wrap_streams lib (original_stdio_server args)"

text \<open>
  The module body (lines 53, 54 and 151 to 162): it reads the factory out of
  \<open>mcp.server.stdio\<close>, stores the wrapper there, and stores it in
  \<open>mcp.server.fastmcp.server\<close> too when that module has the attribute.
\<close>

record ('a, 'c, 'd, 'r) modules =
  stdio_server :: "'a \<Rightarrow> ('c, 'd, 'r) streams"
  fastmcp_stdio_server :: "('a \<Rightarrow> ('c, 'd, 'r) streams) option"

definition install ::
  "'d pylib \<Rightarrow> ('a, 'c, 'd, 'r) modules \<Rightarrow> ('a, 'c, 'd, 'r) modules" where
  "install lib m =
     (let original_stdio_server = stdio_server m;
          logged = logged_stdio_server lib original_stdio_server
      in m\<lparr>stdio_server := logged,
           fastmcp_stdio_server := map_option (\<lambda>_. logged) (fastmcp_stdio_server m)\<rparr>)"

section \<open>Running code (\<open>code_execution.py\<close>)\<close>

text \<open>
  The dictionaries that the functions return have the three keys \<open>returncode\<close>,
  \<open>stdout\<close> and \<open>stderr\<close>. The operating system is a parameter: \<open>subprocess.run\<close> with
  \<open>capture_output=True\<close> and \<open>text=True\<close> maps the argument vector and the timeout in
  seconds (if any) to the completed process with its decoded outputs, or to the
  exception it raises (\<open>TimeoutExpired\<close> when the timeout expires, \<open>FileNotFoundError\<close>
  when the program does not exist, \<open>UnicodeDecodeError\<close> when the process has completed
  but its captured output cannot be decoded), and \<open>tempfile.mkdtemp\<close> returns a directory
  name.
\<close>

record cmd_result =
  returncode :: int
  stdout :: pystr
  stderr :: pystr

record os_env =
  subprocess_run :: "pystr list \<Rightarrow> nat option \<Rightarrow> exn + cmd_result"
  mkdtemp :: pystr

definition run_command :: "os_env \<Rightarrow> pystr list \<Rightarrow> exn + cmd_result" where
  "run_command env cmd =
     (case subprocess_run env cmd (Some 10) of
        Inr result \<Rightarrow>
          Inr \<lparr>returncode = returncode result,
               stdout = strip (stdout result),
               stderr = strip (stderr result)\<rparr>
      | Inl e \<Rightarrow>
          (if e = TimeoutExpired
           then Inr \<lparr>returncode = - 2, stdout = [],
                     stderr = lit ''Error: Execution timed out''\<rparr>
           else Inl e))"

definition install_dependencies ::
  "os_env \<Rightarrow> pystr list option \<Rightarrow> pystr \<Rightarrow> exn + cmd_result" where
  "install_dependencies env packages pip_path =
     (case packages of
        None \<Rightarrow> Inr \<lparr>returncode = 0, stdout = [], stderr = []\<rparr>
      | Some ps \<Rightarrow>
          (if ps = [] then Inr \<lparr>returncode = 0, stdout = [], stderr = []\<rparr>
           else run_command env ([pip_path, lit ''install''] @ ps)))"

text \<open>The dictionary returned when the installation did not exit with 0.\<close>

definition install_failed :: "cmd_result \<Rightarrow> cmd_result" where
  "install_failed install_result =
     \<lparr>returncode = returncode install_result,
      stdout = stdout install_result,
      stderr = lit ''Dependency install failed:\<newline>'' @ stderr install_result\<rparr>"

text \<open>\<open>os.path.join\<close> on POSIX, for two components.\<close>

definition path_join :: "pystr \<Rightarrow> pystr \<Rightarrow> pystr" where
  "path_join a b =
     (if b \<noteq> [] \<and> hd b = 47 then b
      else if a = [] \<or> last a = 47 then a @ b
      else a @ [47] @ b)"

text \<open>
  \<open>run_in_tempdir\<close>: the virtual environment is created with \<open>check=True\<close>, so a non-zero
  exit raises. The \<open>finally\<close> clause removes the directory and leaves the result as it
  is; the file system itself is not modelled.
\<close>

definition run_in_tempdir :: "os_env \<Rightarrow> pystr \<Rightarrow> pystr list option \<Rightarrow> exn + cmd_result" where
  "run_in_tempdir env code packages =
     (let temp_dir = mkdtemp env;
          venv_path = path_join temp_dir (lit ''venv'')
      in case subprocess_run env [lit ''python3'', lit ''-m'', lit ''venv'', venv_path] None of
           Inl e \<Rightarrow> Inl e
         | Inr created \<Rightarrow>
             (if returncode created \<noteq> 0 then Inl CalledProcessError
              else
                (let pip = path_join (path_join venv_path (lit ''bin'')) (lit ''pip'');
                     python = path_join (path_join venv_path (lit ''bin'')) (lit ''python'')
                 in case install_dependencies env packages pip of
                      Inl e \<Rightarrow> Inl e
                    | Inr install_result \<Rightarrow>
                        (if returncode install_result \<noteq> 0
                         then Inr (install_failed install_result)
                         else run_command env [python, lit ''-c'', code]))))"

text \<open>\<open>config.USE_TEMP_DIR\<close> is a parameter.\<close>

definition code_exec_python ::
  "os_env \<Rightarrow> bool \<Rightarrow> pystr \<Rightarrow> pystr list option \<Rightarrow> exn + cmd_result" where
  "code_exec_python env use_temp_dir code packages =
     (if use_temp_dir then run_in_tempdir env code packages
      else
        (case install_dependencies env packages (lit ''pip'') of
           Inl e \<Rightarrow> Inl e
         | Inr install_result \<Rightarrow>
             (if returncode install_result \<noteq> 0
              then Inr (install_failed install_result)
              else run_command env
                     [lit ''python3'', lit ''-c'', lit ''print('exp')\<newline>'' @ code])))"

section \<open>Notions used to state the properties\<close>

text \<open>
  An operation of the transport itself works on the channel state only and leaves the
  logging state of the process alone.
\<close>

definition lift_receive :: "('c, 'd) receive_op \<Rightarrow> ('c \<times> world, 'd) receive_op" where
  "lift_receive op st = (case st of (c, w) \<Rightarrow> (case op c of (r, c') \<Rightarrow> (r, (c', w))))"

definition lift_send :: "('c, 'd, 'r) send_op \<Rightarrow> ('c \<times> world, 'd, 'r) send_op" where
  "lift_send op data st =
     (case st of (c, w) \<Rightarrow> (case op data c of (r, c') \<Rightarrow> (r, (c', w))))"



text \<open>The events that a step adds to the trace.\<close>

definition emitted :: "(world \<Rightarrow> 'a \<times> world) \<Rightarrow> world \<Rightarrow> event list" where
  "emitted f w = drop (length (trace w)) (trace (snd (f w)))"

fun is_connect :: "event \<Rightarrow> bool" where
  "is_connect (Connect out) = True"
| "is_connect ev = False"

definition connect_attempts :: "event list \<Rightarrow> nat" where
  "connect_attempts evs = length (filter is_connect evs)"

subsection \<open>The encoder, read off the three chains\<close>

text \<open>
  The specification speaks of an encoder that turns a message into a line, which is then
  handed to the sink. The source has no such function: each branch of a chain formats
  its line inside the call of \<open>_tcp_write\<close>. The following functions are the lines that
  the branches format; \<open>mirror_input_encode\<close>, \<open>mirror_output_encode\<close> and
  \<open>mirror_write_encode\<close> below show that each chain is this encoder followed by
  \<open>_tcp_write\<close>, for the two nested branches as long as \<open>_tcp_write\<close> returns: there the
  call stands inside the \<open>try\<close>, and a raise of it sends the chain into the handler.
\<close>

definition serialize_dump :: "'d pylib \<Rightarrow> 'd pyval \<Rightarrow> exn + pystr" where
  "serialize_dump lib x =
     (case call (attr_model_dump x) of
        Inl e \<Rightarrow> Inl e
      | Inr d \<Rightarrow> json_dumps lib d)"

definition serialize_root :: "'d pylib \<Rightarrow> 'd pyval \<Rightarrow> exn + pystr" where
  "serialize_root lib x =
     (case call (attr_model_dump_json x) of
        Inr s \<Rightarrow> Inr s
      | Inl e \<Rightarrow> serialize_dump lib x)"

definition serialize_flat :: "'d pylib \<Rightarrow> 'd pyval \<Rightarrow> exn + pystr" where
  "serialize_flat lib v =
     (if attr_model_dump_json v \<noteq> Absent then call (attr_model_dump_json v)
      else if attr_model_dump v \<noteq> Absent then serialize_dump lib v
      else py_str lib v)"

definition serialize_envelope :: "'d pylib \<Rightarrow> 'd pyval \<Rightarrow> exn + pystr" where
  "serialize_envelope lib v =
     (if has_message_root v then serialize_root lib (message_root v)
      else if attr_root v \<noteq> None then serialize_root lib (the (attr_root v))
      else serialize_flat lib v)"

definition tagged :: "string \<Rightarrow> exn + pystr \<Rightarrow> exn + pystr" where
  "tagged tag r = (case r of Inl e \<Rightarrow> Inl e | Inr s \<Rightarrow> Inr (lit tag @ s))"

fun encode_input :: "'d pylib \<Rightarrow> 'd pyval \<Rightarrow> exn + pystr" where
  "encode_input lib (PStr s) = Inr (lit ''INPUT: '' @ strip s)"
| "encode_input lib v = tagged ''INPUT: '' (serialize_envelope lib v)"

fun encode_output :: "'d pylib \<Rightarrow> 'd pyval \<Rightarrow> exn + pystr" where
  "encode_output lib (PStr s) = Inr (lit ''OUTPUT: '' @ s)"
| "encode_output lib (PBytes bs) = Inr (lit ''OUTPUT: '' @ utf8_decode_replace bs)"
| "encode_output lib v = tagged ''OUTPUT: '' (serialize_envelope lib v)"

fun encode_write :: "'d pylib \<Rightarrow> 'd pyval \<Rightarrow> exn + pystr" where
  "encode_write lib (PStr s) = Inr (lit ''OUTPUT: '' @ s)"
| "encode_write lib (PBytes bs) = Inr (lit ''OUTPUT: '' @ utf8_decode_replace bs)"
| "encode_write lib v = tagged ''OUTPUT: '' (serialize_flat lib v)"

text \<open>Handing the encoder's result to the sink: a raise of the encoder is passed on.\<close>

definition emit :: "exn + pystr \<Rightarrow> world \<Rightarrow> (exn + unit) \<times> world" where
  "emit r w = (case r of Inl e \<Rightarrow> (Inl e, w) | Inr line \<Rightarrow> tcp_write line w)"

subsection \<open>What one call of \<open>_tcp_write\<close> adds to the trace\<close>

definition next_connect :: "world \<Rightarrow> conn_outcome" where
  "next_connect w = (case connect_script w of [] \<Rightarrow> ConnectFails | out # rest \<Rightarrow> out)"

definition next_sendall_ok :: "world \<Rightarrow> bool" where
  "next_sendall_ok w = (case sendall_script w of [] \<Rightarrow> False | ok # rest \<Rightarrow> ok)"

definition fallback_events :: "pystr \<Rightarrow> world \<Rightarrow> event list" where
  "fallback_events message w =
     (if stderr_ok w then [Stderr (message @ lit ''\<newline>'')] else [])"

definition send_events :: "nat \<Rightarrow> pystr \<Rightarrow> world \<Rightarrow> event list" where
  "send_events sock message w =
     (case utf8_encode (lit ''-----\<newline>'' @ message @ lit ''\<newline>'') of
        Inl e \<Rightarrow> fallback_events message w
      | Inr bs \<Rightarrow>
          if next_sendall_ok w then [Sendall sock bs True]
          else Sendall sock bs False # fallback_events message w)"

definition tcp_events :: "pystr \<Rightarrow> world \<Rightarrow> event list" where
  "tcp_events message w =
     (case log_socket w of
        Some sock \<Rightarrow> send_events sock message w
      | None \<Rightarrow>
          if next_connect w = Connected
          then Connect Connected # send_events (next_socket w) message w
          else Connect (next_connect w) # fallback_events message w)"

section \<open>Concrete processes, libraries and messages\<close>

text \<open>
  Three states of the process in which the diagnostic stream accepts what is written to
  it: the sink refuses every connection; a connection is stored and the sink accepts
  the next frame; a connection is stored, but the sink has closed it and refuses to be
  reached again. The first and the third also with a diagnostic stream that refuses.
\<close>

definition unreachable :: world where
  "unreachable =
     \<lparr>log_socket = None, connect_script = [], sendall_script = [], next_socket = 0,
      stderr_ok = True, trace = []\<rparr>"

definition live :: world where
  "live =
     \<lparr>log_socket = Some 0, connect_script = [], sendall_script = [True], next_socket = 1,
      stderr_ok = True, trace = []\<rparr>"

definition closed_by_peer :: world where
  "closed_by_peer =
     \<lparr>log_socket = Some 0, connect_script = [ConnectFails], sendall_script = [False],
      next_socket = 1, stderr_ok = True, trace = []\<rparr>"

definition unreachable_stderr_closed :: world where
  "unreachable_stderr_closed = unreachable\<lparr>stderr_ok := False\<rparr>"

definition closed_by_peer_stderr_closed :: world where
  "closed_by_peer_stderr_closed = closed_by_peer\<lparr>stderr_ok := False\<rparr>"

text \<open>
  \<open>str\<close> of a \<open>bytes\<close> object is its \<open>repr\<close>: the octets between \<open>b'\<close> and \<open>'\<close> (between
  double quotes when the octets contain a single quote and no double quote), with the
  quote and the backslash escaped by a backslash, tab, newline and carriage return
  written \<open>\t\<close>, \<open>\n\<close>, \<open>\r\<close>, and every other octet outside the printable ASCII
  range written \<open>\xNN\<close> with two lower-case hexadecimal digits.
\<close>

definition hex_digit :: "nat \<Rightarrow> nat" where
  "hex_digit n = (if n < 10 then 48 + n else 87 + n)"

definition repr_octet :: "nat \<Rightarrow> byte \<Rightarrow> pystr" where
  "repr_octet quote b =
     (let n = unat b
      in if n = quote \<or> n = 92 then [92, n]
         else if n = 9 then [92, 116]
         else if n = 10 then [92, 110]
         else if n = 13 then [92, 114]
         else if n < 32 \<or> 127 \<le> n then [92, 120, hex_digit (n div 16), hex_digit (n mod 16)]
         else [n])"

definition bytes_repr :: "byte list \<Rightarrow> pystr" where
  "bytes_repr bs =
     (let quote = (if 39 \<in> set bs \<and> 34 \<notin> set bs then 34 else 39)
      in [98, quote] @ concat (map (repr_octet quote) bs) @ [quote])"

text \<open>
  A library in which the dictionary of \<open>model_dump()\<close> is represented by its JSON text.
\<close>

definition lib0 :: "pystr pylib" where
  "lib0 = \<lparr>json_dumps = (\<lambda>d. Inr d), bytes_str = bytes_repr\<rparr>"

text \<open>
  A transport whose channel state counts the operations it has carried out: \<open>send\<close>
  and \<open>write\<close> return \<open>None\<close>, \<open>receive\<close> returns a fixed message.
\<close>

definition counting_send :: "(nat, 'd, unit) send_op" where
  "counting_send data c = (Inr (), Suc c)"

definition receive_of :: "'d pyval \<Rightarrow> (nat, 'd) receive_op" where
  "receive_of v c = (Inr v, Suc c)"

text \<open>
  Messages: a text; an object whose only capability is \<open>model_dump_json\<close>, which raises
  when called; an object whose \<open>root\<close> attribute is a plain string; a session message
  whose \<open>message.root\<close> has a working \<open>model_dump_json\<close>.
\<close>

definition ping :: "pystr pyval" where
  "ping = PStr (lit ''ping'')"

definition failing_model :: "pystr pyval" where
  "failing_model = PObj True None None (Raises ValueError) Absent (Inr (lit ''Model()''))"

definition text_rooted :: "pystr pyval" where
  "text_rooted = PObj True None (Some (PStr (lit ''hello''))) Absent Absent (Inr (lit ''Rooted()''))"

definition rpc_root :: "pystr pyval" where
  "rpc_root = PObj True None None (Returns (lit ''{id:1}'')) Absent (Inr (lit ''Root()''))"

definition session_message :: "pystr pyval" where
  "session_message =
     PObj True (Some (PObj True None (Some rpc_root) Absent Absent (Inr (lit ''Message()''))))
       None Absent Absent (Inr (lit ''SessionMessage()''))"







text \<open>
  An operating system that knows three commands: \<open>sleep 60\<close>, which outlives any
  timeout below 60 seconds; a Python program that prints \<open>exp\<close> and \<open>1\<close>; and a Python
  program that leaves through \<open>os._exit(0)\<close>, which exits with status 0 without
  flushing the buffered standard output, so that nothing printed before reaches the
  pipe. Any other command is not found.
\<close>

definition sample_os :: os_env where
  "sample_os =
     \<lparr>subprocess_run = (\<lambda>cmd timeout.
        if cmd = [lit ''sleep'', lit ''60''] then
          (case timeout of
             None \<Rightarrow> Inr \<lparr>returncode = 0, stdout = [], stderr = []\<rparr>
           | Some t \<Rightarrow>
               if t < 60 then Inl TimeoutExpired
               else Inr \<lparr>returncode = 0, stdout = [], stderr = []\<rparr>)
        else if cmd = [lit ''python3'', lit ''-c'', lit ''print('exp')\<newline>print(1)''] then
          Inr \<lparr>returncode = 0, stdout = lit ''exp\<newline>1\<newline>'', stderr = []\<rparr>
        else if cmd = [lit ''python3'', lit ''-c'',
                       lit ''print('exp')\<newline>import os\<newline>os._exit(0)''] then
          Inr \<lparr>returncode = 0, stdout = [], stderr = []\<rparr>
        else Inl FileNotFoundError),
      mkdtemp = lit ''/tmp/tmp0''\<rparr>"

text \<open>
  An operating system whose only command, \<open>printf\<close> with the octal escape of 255 as
  its argument, exits with status 0 after writing the octet \<open>0xFF\<close>, which is not
  UTF-8: \<open>subprocess.run\<close> with \<open>text=True\<close> cannot decode the captured output and raises
  \<open>UnicodeDecodeError\<close> after the process has completed.
\<close>

definition undecodable_os :: os_env where
  "undecodable_os =
     \<lparr>subprocess_run = (\<lambda>cmd timeout.
        if cmd = [lit ''printf'', 92 # lit ''377''] then Inl UnicodeDecodeError
        else Inl FileNotFoundError),
      mkdtemp = lit ''/tmp/tmp0''\<rparr>"

section \<open>Auxiliary facts\<close>

subsection \<open>The sink raises only when the diagnostic stream refuses\<close>

lemma stderr_write_stderr_ok: "stderr_ok (snd (stderr_write s w)) = stderr_ok w"
  by (simp add: stderr_write_def)

lemma send_frame_stderr_ok: "stderr_ok (snd (send_frame sock message w)) = stderr_ok w"
  by (simp add: send_frame_def sock_sendall_def split: sum.split list.split)

lemma get_log_socket_stderr_ok: "stderr_ok (snd (get_log_socket w)) = stderr_ok w"
  by (simp add: get_log_socket_def open_connection_def Let_def
      split: option.split list.split)

lemma tcp_write_stderr_ok: "stderr_ok (snd (tcp_write message w)) = stderr_ok w"
proof -
  obtain so w1 where g: "get_log_socket w = (so, w1)"
    by (cases "get_log_socket w")
  with get_log_socket_stderr_ok [of w] have w1: "stderr_ok w1 = stderr_ok w"
    by simp
  show ?thesis
  proof (cases so)
    case None
    with g w1 show ?thesis
      by (simp add: tcp_write_def stderr_write_def)
  next
    case (Some sock)
    obtain r w2 where f: "send_frame sock message w1 = (r, w2)"
      by (cases "send_frame sock message w1")
    with send_frame_stderr_ok [of sock message w1] w1 have "stderr_ok w2 = stderr_ok w"
      by simp
    with g Some f show ?thesis
      by (cases r) (simp_all add: tcp_write_def stderr_write_def)
  qed
qed

lemma tcp_write_returns:
  assumes "stderr_ok w"
  shows "fst (tcp_write message w) = Inr ()"
proof -
  obtain so w1 where g: "get_log_socket w = (so, w1)"
    by (cases "get_log_socket w")
  with get_log_socket_stderr_ok [of w] assms have w1: "stderr_ok w1"
    by simp
  show ?thesis
  proof (cases so)
    case None
    with g w1 show ?thesis
      by (simp add: tcp_write_def stderr_write_def)
  next
    case (Some sock)
    obtain r w2 where f: "send_frame sock message w1 = (r, w2)"
      by (cases "send_frame sock message w1")
    with send_frame_stderr_ok [of sock message w1] w1 have "stderr_ok w2"
      by simp
    with g Some f show ?thesis
      by (cases r) (simp_all add: tcp_write_def stderr_write_def)
  qed
qed

lemma tcp_write_result:
  "stderr_ok w \<Longrightarrow> tcp_write message w = (Inr (), snd (tcp_write message w))"
  using tcp_write_returns [of w message] by (cases "tcp_write message w") simp

subsection \<open>Each chain is the encoder followed by the sink\<close>

lemma write_model_dump_json_emit:
  "write_model_dump_json (lit tag) x w = emit (tagged tag (call (attr_model_dump_json x))) w"
  by (simp add: write_model_dump_json_def emit_def tagged_def split: sum.split)

lemma write_model_dump_emit:
  "write_model_dump lib (lit tag) x w = emit (tagged tag (serialize_dump lib x)) w"
  by (simp add: write_model_dump_def emit_def tagged_def serialize_dump_def split: sum.split)

lemma write_str_emit:
  "write_str lib (lit tag) x w = emit (tagged tag (py_str lib x)) w"
  by (simp add: write_str_def emit_def tagged_def split: sum.split)

text \<open>
  In the nested branches the call of \<open>_tcp_write\<close> stands inside the \<open>try\<close>: when it
  raises, the handler runs. It does not raise while the diagnostic stream accepts.
\<close>

lemma write_root_emit:
  assumes "stderr_ok w"
  shows "write_root lib (lit tag) x w = emit (tagged tag (serialize_root lib x)) w"
proof (cases "call (attr_model_dump_json x)")
  case (Inl e)
  then show ?thesis
    by (simp add: write_root_def write_model_dump_json_def write_model_dump_emit
        serialize_root_def)
next
  case (Inr s)
  obtain w' where "tcp_write (lit tag @ s) w = (Inr (), w')"
    using tcp_write_result [OF assms] by blast
  with Inr show ?thesis
    by (simp add: write_root_def write_model_dump_json_def serialize_root_def emit_def
        tagged_def)
qed

lemmas write_emit =
  write_model_dump_json_emit write_model_dump_emit write_str_emit

lemma mirror_input_encode:
  "stderr_ok w \<Longrightarrow> mirror_input lib v w = emit (encode_input lib v) w"
  by (cases v)
    (simp_all add: write_emit write_root_emit serialize_envelope_def serialize_flat_def
      emit_def)

lemma mirror_output_encode:
  "stderr_ok w \<Longrightarrow> mirror_output lib v w = emit (encode_output lib v) w"
  by (cases v)
    (simp_all add: write_emit write_root_emit serialize_envelope_def serialize_flat_def
      emit_def)

lemma mirror_write_encode: "mirror_write lib v w = emit (encode_write lib v) w"
  by (cases v) (simp_all add: write_emit serialize_flat_def emit_def)



subsection \<open>The effect of one call of \<open>_tcp_write\<close>\<close>

lemma send_frame_log_socket:
  "log_socket (snd (send_frame sock message w)) = log_socket w"
  by (simp add: send_frame_def sock_sendall_def split: sum.split list.split)

lemma send_frame_ok:
  "(fst (send_frame sock message w) = Inr ()) =
     ((\<exists>bs. utf8_encode (lit ''-----\<newline>'' @ message @ lit ''\<newline>'') = Inr bs)
       \<and> next_sendall_ok w)"
  by (auto simp add: send_frame_def sock_sendall_def next_sendall_ok_def
      split: sum.split list.split)

lemma after_send_trace:
  "trace (snd (case send_frame sock message w of
                 (Inr u, w2) \<Rightarrow> (Inr u, w2)
               | (Inl e, w2) \<Rightarrow>
                   stderr_write (message @ lit ''\<newline>'') (w2\<lparr>log_socket := None\<rparr>)))
   = trace w @ send_events sock message w"
  by (simp add: send_frame_def sock_sendall_def next_sendall_ok_def send_events_def
      fallback_events_def stderr_write_def split: sum.split list.split)

lemma after_send_log_socket:
  "log_socket (snd (case send_frame sock message w of
                 (Inr u, w2) \<Rightarrow> (Inr u, w2)
               | (Inl e, w2) \<Rightarrow>
                   stderr_write (message @ lit ''\<newline>'') (w2\<lparr>log_socket := None\<rparr>)))
   = (if fst (send_frame sock message w) = Inr () then log_socket w else None)"
  by (simp add: send_frame_def sock_sendall_def stderr_write_def
      split: sum.split list.split)

lemma get_log_socket_live:
  "log_socket w = Some sock \<Longrightarrow> get_log_socket w = (Some sock, w)"
  by (simp add: get_log_socket_def)

lemma get_log_socket_connects:
  assumes "log_socket w = None" and "connect_script w = Connected # rest"
  shows "get_log_socket w =
           (Some (next_socket w),
            w\<lparr>connect_script := rest, trace := trace w @ [Connect Connected],
              next_socket := Suc (next_socket w), log_socket := Some (next_socket w)\<rparr>)"
  using assms by (simp add: get_log_socket_def open_connection_def)

lemma get_log_socket_fails:
  assumes "log_socket w = None" and "next_connect w \<noteq> Connected"
  shows "get_log_socket w =
           (None, w\<lparr>connect_script := tl (connect_script w),
                     trace := trace w @ [Connect (next_connect w)]\<rparr>)"
  using assms
  by (cases "connect_script w")
    (simp_all add: get_log_socket_def open_connection_def next_connect_def)

lemma tcp_write_trace: "trace (snd (tcp_write message w)) = trace w @ tcp_events message w"
proof (cases "log_socket w")
  case (Some sock)
  then show ?thesis
    by (simp add: tcp_write_def get_log_socket_live tcp_events_def after_send_trace)
next
  case None
  show ?thesis
  proof (cases "next_connect w = Connected")
    case True
    then obtain rest where rest: "connect_script w = Connected # rest"
      by (cases "connect_script w") (simp_all add: next_connect_def)
    let ?w1 = "w\<lparr>connect_script := rest, trace := trace w @ [Connect Connected],
                 next_socket := Suc (next_socket w), log_socket := Some (next_socket w)\<rparr>"
    have "next_sendall_ok ?w1 = next_sendall_ok w"
      by (simp add: next_sendall_ok_def)
    then have "send_events (next_socket w) message ?w1 = send_events (next_socket w) message w"
      by (simp add: send_events_def fallback_events_def split: sum.split)
    with None True rest show ?thesis
      by (simp add: tcp_write_def get_log_socket_connects tcp_events_def after_send_trace)
  next
    case False
    with None show ?thesis
      by (simp add: tcp_write_def get_log_socket_fails tcp_events_def stderr_write_def
          fallback_events_def)
  qed
qed

lemma emitted_tcp_write: "emitted (tcp_write message) w = tcp_events message w"
  by (simp add: emitted_def tcp_write_trace)

lemma tcp_write_live_log_socket:
  assumes "log_socket w = Some sock"
  shows "log_socket (snd (tcp_write message w)) =
           (if fst (send_frame sock message w) = Inr () then Some sock else None)"
  using assms by (simp add: tcp_write_def get_log_socket_live after_send_log_socket)

lemma tcp_write_unset_fails:
  assumes "log_socket w = None" and "next_connect w \<noteq> Connected"
  shows "log_socket (snd (tcp_write message w)) = None"
  using assms by (simp add: tcp_write_def get_log_socket_fails stderr_write_def)

lemma connect_attempts_send_events [simp]:
  "connect_attempts (send_events sock message w) = 0"
  by (simp add: connect_attempts_def send_events_def fallback_events_def split: sum.split)

lemma connect_attempts_tcp_events:
  "connect_attempts (tcp_events message w) = (if log_socket w = None then 1 else 0)"
proof (cases "log_socket w")
  case None
  have "connect_attempts (Connect Connected # send_events (next_socket w) message w) = 1"
    using connect_attempts_send_events [of "next_socket w" message w]
    by (simp add: connect_attempts_def)
  with None show ?thesis
    by (simp add: tcp_events_def connect_attempts_def fallback_events_def)
next
  case (Some sock)
  then show ?thesis by (simp add: tcp_events_def)
qed
subsection \<open>Stripping\<close>

lemma rstrip_decomp: "t = rstrip t @ rev (takeWhile py_isspace (rev t))"
  unfolding rstrip_def rev_append [symmetric] takeWhile_dropWhile_id by simp

lemma strip_decomp:
  "s = takeWhile py_isspace s @ strip s @ rev (takeWhile py_isspace (rev (lstrip s)))"
proof -
  have "s = takeWhile py_isspace s @ lstrip s"
    by (simp add: lstrip_def)
  also have "lstrip s = strip s @ rev (takeWhile py_isspace (rev (lstrip s)))"
    unfolding strip_def by (rule rstrip_decomp)
  finally show ?thesis .
qed

lemma strip_last: 
  assumes "strip s \<noteq> []"
  shows "\<not> py_isspace (last (strip s))"
proof -
  let ?d = "dropWhile py_isspace (rev (lstrip s))"
  from assms have ne: "?d \<noteq> []"
    by (simp add: strip_def rstrip_def)
  then have "\<not> py_isspace (hd ?d)"
    by (rule hd_dropWhile)
  moreover from ne have "last (rev ?d) = hd ?d"
    by (simp add: last_rev)
  ultimately show ?thesis
    by (simp add: strip_def rstrip_def)
qed

lemma strip_hd:
  assumes "strip s \<noteq> []"
  shows "\<not> py_isspace (hd (strip s))"
proof -
  have l: "lstrip s = strip s @ rev (takeWhile py_isspace (rev (lstrip s)))"
    unfolding strip_def by (rule rstrip_decomp)
  with assms have ne: "lstrip s \<noteq> []"
    by auto
  then have "\<not> py_isspace (hd (lstrip s))"
    unfolding lstrip_def by (rule hd_dropWhile)
  moreover from assms have "hd (lstrip s) = hd (strip s)"
    by (subst l) simp
  ultimately show ?thesis by simp
qed

lemma strip_spaces_before: "\<forall>c \<in> set (takeWhile py_isspace s). py_isspace c"
  by (auto dest: set_takeWhileD)

lemma strip_spaces_after:
  "\<forall>c \<in> set (rev (takeWhile py_isspace (rev (lstrip s)))). py_isspace c"
  by (auto dest: set_takeWhileD)

lemma strip_spec:
  "(\<exists>before after. s = before @ strip s @ after
      \<and> list_all py_isspace before \<and> list_all py_isspace after)
   \<and> (strip s \<noteq> [] \<longrightarrow> \<not> py_isspace (hd (strip s)) \<and> \<not> py_isspace (last (strip s)))"
proof (intro conjI impI)
  have "s = takeWhile py_isspace s @ strip s @ rev (takeWhile py_isspace (rev (lstrip s)))"
    by (rule strip_decomp)
  moreover have "list_all py_isspace (takeWhile py_isspace s)"
    using strip_spaces_before by (simp add: list_all_iff)
  moreover have "list_all py_isspace (rev (takeWhile py_isspace (rev (lstrip s))))"
    using strip_spaces_after [of s] by (simp add: list_all_iff)
  ultimately show "\<exists>before after. s = before @ strip s @ after
      \<and> list_all py_isspace before \<and> list_all py_isspace after"
    by blast
next
  assume "strip s \<noteq> []"
  then show "\<not> py_isspace (hd (strip s))" and "\<not> py_isspace (last (strip s))"
    by (rule strip_hd, rule strip_last)
qed

lemma rstrip_keeps_prefix:
  assumes "a \<noteq> []" and "\<not> py_isspace (last a)"
  shows "rstrip (a @ b) = a @ rstrip b"
proof -
  from assms have "dropWhile py_isspace (rev a) = rev a"
    by (cases a rule: rev_cases) simp_all
  then have "dropWhile py_isspace (rev b @ rev a) = dropWhile py_isspace (rev b) @ rev a"
    by (simp add: dropWhile_append)
  then show ?thesis
    by (simp add: rstrip_def)
qed

lemma strip_keeps_exp: "strip (lit ''exp'' @ rest) = lit ''exp'' @ rstrip rest"
proof -
  have "lstrip (lit ''exp'' @ rest) = lit ''exp'' @ rest"
    by (simp add: lstrip_def lit_def py_isspace_def)
  moreover have "rstrip (lit ''exp'' @ rest) = lit ''exp'' @ rstrip rest"
    by (rule rstrip_keeps_prefix) (simp_all add: lit_def py_isspace_def)
  ultimately show ?thesis
    by (simp add: strip_def)
qed

subsection \<open>The frame\<close>

lemma utf8_encode_append:
  "utf8_encode (xs @ ys) =
     (case utf8_encode xs of
        Inl e \<Rightarrow> Inl e
      | Inr a \<Rightarrow> (case utf8_encode ys of Inl e \<Rightarrow> Inl e | Inr b \<Rightarrow> Inr (a @ b)))"
  by (induction xs) (simp_all split: sum.split)

lemma utf8_encode_separator:
  "utf8_encode (lit ''-----\<newline>'') = Inr [45, 45, 45, 45, 45, 10]"
  by (simp add: lit_def is_surrogate_def utf8_bytes_def)

lemma utf8_encode_newline: "utf8_encode (lit ''\<newline>'') = Inr [10]"
  by (simp add: lit_def is_surrogate_def utf8_bytes_def)

lemma utf8_encode_frame:
  "utf8_encode (lit ''-----\<newline>'' @ message @ lit ''\<newline>'') =
     (case utf8_encode message of
        Inl e \<Rightarrow> Inl e
      | Inr body \<Rightarrow> Inr ([45, 45, 45, 45, 45, 10] @ body @ [10]))"
  by (simp add: utf8_encode_append utf8_encode_separator utf8_encode_newline
      split: sum.split)

lemma sendall_in_send_events:
  assumes "Sendall s bs ok \<in> set (send_events sock message w)"
  shows "utf8_encode (lit ''-----\<newline>'' @ message @ lit ''\<newline>'') = Inr bs \<and> s = sock"
  using assms
  by (auto simp add: send_events_def fallback_events_def split: sum.splits if_splits)

lemma sendall_in_tcp_events:
  assumes "Sendall s bs ok \<in> set (tcp_events message w)"
  shows "utf8_encode (lit ''-----\<newline>'' @ message @ lit ''\<newline>'') = Inr bs"
  using assms sendall_in_send_events
  by (auto simp add: tcp_events_def fallback_events_def split: option.splits if_splits)
subsection \<open>The wrapped operations in terms of the encoder\<close>

lemma emit_Inl: "emit (Inl e) w = (Inl e, w)"
  by (simp add: emit_def)

lemma emit_Inr: "stderr_ok w \<Longrightarrow> emit (Inr line) w = (Inr (), snd (tcp_write line w))"
  using tcp_write_result [of w line] by (simp add: emit_def)

lemma logged_send_encode:
  assumes "stderr_ok w"
  shows "logged_send lib original_send data (c, w) =
     (if truthy data
      then (case encode_output lib data of
              Inl e \<Rightarrow> (Inl e, (c, w))
            | Inr line \<Rightarrow> original_send data (c, snd (tcp_write line w)))
      else original_send data (c, w))"
  using assms
  by (cases "encode_output lib data")
    (simp_all add: logged_send_def mirror_output_encode emit_Inl emit_Inr)

lemma logged_write_encode:
  assumes "stderr_ok w"
  shows "logged_write lib original_write data (c, w) =
     (if truthy data
      then (case encode_write lib data of
              Inl e \<Rightarrow> (Inl e, (c, w))
            | Inr line \<Rightarrow> original_write data (c, snd (tcp_write line w)))
      else original_write data (c, w))"
  using assms
  by (cases "encode_write lib data")
    (simp_all add: logged_write_def mirror_write_encode emit_Inl emit_Inr)

lemma logged_receive_raises:
  "original_receive st = (Inl e, st') \<Longrightarrow> logged_receive lib original_receive st = (Inl e, st')"
  by (simp add: logged_receive_def)

lemma logged_receive_encode:
  assumes "original_receive st = (Inr line, (c, w))" and "stderr_ok w"
  shows "logged_receive lib original_receive st =
     (if truthy line
      then (case encode_input lib line of
              Inl e \<Rightarrow> (Inl e, (c, w))
            | Inr l \<Rightarrow> (Inr line, (c, snd (tcp_write l w))))
      else (Inr line, (c, w)))"
  using assms
  by (cases "encode_input lib line")
    (simp_all add: logged_receive_def mirror_input_encode emit_Inl emit_Inr)

lemma tcp_write_live_connect_script:
  assumes "log_socket w = Some sock"
  shows "connect_script (snd (tcp_write message w)) = connect_script w"
  using assms
  by (simp add: tcp_write_def get_log_socket_live send_frame_def sock_sendall_def
      stderr_write_def split: sum.split list.split)

lemma tcp_write_live_next_connect:
  assumes "log_socket w = Some sock"
  shows "next_connect (snd (tcp_write message w)) = next_connect w"
  using assms by (simp add: next_connect_def tcp_write_live_connect_script)
subsection \<open>The decoder\<close>


subsection \<open>The line of an envelope\<close>












subsection \<open>The nested branches when \<open>_tcp_write\<close> raises\<close>




subsection \<open>A \<open>bytes\<close> value on the receive path\<close>

text \<open>
  \<open>logged_receive\<close> has no branch for \<open>bytes\<close>: the chain falls through to \<open>str(line)\<close>,
  which is the \<open>repr\<close> of the value. For the octets of \<open>hi\<close>, \<open>0xFF\<close> and a newline it
  consists of the characters \<open>b\<close>, quote, \<open>h\<close>, \<open>i\<close>, backslash, \<open>x\<close>, \<open>f\<close>, \<open>f\<close>,
  backslash, \<open>n\<close>, quote.
\<close>

lemma receive_bytes_line:
  "mirror_input lib (PBytes bs) w = tcp_write (lit ''INPUT: '' @ bytes_str lib bs) w"
  by (simp add: write_str_def has_message_root_def)

lemma bytes_repr_example:
  "bytes_str lib0 [104, 105, 255, 10] = [98, 39, 104, 105, 92, 120, 102, 102, 92, 110, 39]"
  by (simp add: lib0_def bytes_repr_def repr_octet_def hex_digit_def Let_def)

section \<open>The sink connection manager\<close>

text \<open>
  C3, as amended. The frame that \<open>_tcp_write\<close> hands to the socket is the UTF-8 encoding
  of \<open>"-----\n" + line + "\n"\<close>: a separator of five dashes and a newline, the line, and
  a trailing newline. Over a stored connection the first thing a call does is to send
  this frame, and no call ever sends anything else.
\<close>

theorem tcp_write_frame:
  "(log_socket w = Some sock \<and> utf8_encode message = Inr body \<longrightarrow>
      hd (emitted (tcp_write message) w) =
        Sendall sock ([45, 45, 45, 45, 45, 10] @ body @ [10]) (next_sendall_ok w))
   \<and> (Sendall s bs ok \<in> set (emitted (tcp_write message) w) \<longrightarrow>
        utf8_encode (lit ''-----\<newline>'' @ message @ lit ''\<newline>'') = Inr bs
        \<and> (\<exists>body. utf8_encode message = Inr body
               \<and> bs = [45, 45, 45, 45, 45, 10] @ body @ [10]))"
proof (intro conjI impI)
  assume "log_socket w = Some sock \<and> utf8_encode message = Inr body"
  then show "hd (emitted (tcp_write message) w) =
      Sendall sock ([45, 45, 45, 45, 45, 10] @ body @ [10]) (next_sendall_ok w)"
    by (simp add: emitted_tcp_write tcp_events_def send_events_def utf8_encode_frame)
next
  assume "Sendall s bs ok \<in> set (emitted (tcp_write message) w)"
  then have enc: "utf8_encode (lit ''-----\<newline>'' @ message @ lit ''\<newline>'') = Inr bs"
    by (simp add: emitted_tcp_write sendall_in_tcp_events)
  then show "utf8_encode (lit ''-----\<newline>'' @ message @ lit ''\<newline>'') = Inr bs" .
  from enc show "\<exists>body. utf8_encode message = Inr body
      \<and> bs = [45, 45, 45, 45, 45, 10] @ body @ [10]"
    by (auto simp add: utf8_encode_frame split: sum.splits)
qed

theorem tcp_write_frame_witness:
  "log_socket live = Some 0
   \<and> utf8_encode (lit ''ping'') = Inr [112, 105, 110, 103]
   \<and> emitted (tcp_write (lit ''ping'')) live =
       [Sendall 0 [45, 45, 45, 45, 45, 10, 112, 105, 110, 103, 10] True]
   \<and> hd (emitted (tcp_write (lit ''ping'')) live) =
       Sendall 0 ([45, 45, 45, 45, 45, 10] @ [112, 105, 110, 103] @ [10])
         (next_sendall_ok live)
   \<and> utf8_encode (lit ''-----\<newline>'' @ lit ''ping'' @ lit ''\<newline>'') =
       Inr [45, 45, 45, 45, 45, 10, 112, 105, 110, 103, 10]"
proof -
  have enc: "utf8_encode (lit ''ping'') = Inr [112, 105, 110, 103]"
    by (simp add: lit_def is_surrogate_def utf8_bytes_def)
  have ev: "emitted (tcp_write (lit ''ping'')) live =
      [Sendall 0 [45, 45, 45, 45, 45, 10, 112, 105, 110, 103, 10] True]"
    by (simp add: emitted_tcp_write tcp_events_def send_events_def utf8_encode_frame enc
        live_def next_sendall_ok_def)
  have ls: "log_socket live = Some 0"
    by (simp add: live_def)
  from tcp_write_frame [of live 0 "lit ''ping''" "[112, 105, 110, 103]" 0
      "[45, 45, 45, 45, 45, 10, 112, 105, 110, 103, 10]" True]
  show ?thesis
    using enc ev ls by simp
qed

text \<open>
  C3 as stated fails: for the line \<open>ping\<close> over a stored connection the socket receives
  eleven octets that begin with five dashes, not the ten octets of
  \<open>"----\n" + "ping" + "\n"\<close>.
\<close>

theorem tcp_write_four_dashes_counterexample:
  "emitted (tcp_write (lit ''ping'')) live =
     [Sendall 0 [45, 45, 45, 45, 45, 10, 112, 105, 110, 103, 10] True]
   \<and> utf8_encode (lit ''----\<newline>'' @ lit ''ping'' @ lit ''\<newline>'') =
       Inr [45, 45, 45, 45, 10, 112, 105, 110, 103, 10]
   \<and> emitted (tcp_write (lit ''ping'')) live \<noteq>
       [Sendall 0 [45, 45, 45, 45, 10, 112, 105, 110, 103, 10] True]"
proof -
  have enc: "utf8_encode (lit ''ping'') = Inr [112, 105, 110, 103]"
    by (simp add: lit_def is_surrogate_def utf8_bytes_def)
  have ev: "emitted (tcp_write (lit ''ping'')) live =
      [Sendall 0 [45, 45, 45, 45, 45, 10, 112, 105, 110, 103, 10] True]"
    by (simp add: emitted_tcp_write tcp_events_def send_events_def utf8_encode_frame enc
        live_def next_sendall_ok_def)
  have four: "utf8_encode (lit ''----\<newline>'' @ lit ''ping'' @ lit ''\<newline>'') =
      Inr [45, 45, 45, 45, 10, 112, 105, 110, 103, 10]"
    by (simp add: lit_def is_surrogate_def utf8_bytes_def)
  from ev four show ?thesis by simp
qed

text \<open>
  C6, as amended. When the write over a stored connection fails (the body of the \<open>try\<close>
  in \<open>_tcp_write\<close> raises), the stored connection is dropped and no connection is
  attempted in that call; the next call then makes exactly one connection attempt, and
  when that attempt fails too the connection stays unset. What happens to the line
  depends on the diagnostic stream, whose write stands outside every \<open>try\<close>: while the
  stream accepts, the call does not raise and the current line ends up on the stream,
  the next call does not raise either and, when its connection attempt fails, writes
  its line to the stream, and no call of \<open>_tcp_write\<close> raises, whatever the state of the
  connection. When the stream refuses, the call raises and the line is written nowhere.
\<close>

theorem tcp_write_failure_handling:
  assumes "log_socket w = Some sock"
    and "fst (send_frame sock message w) = Inl e"
  shows "log_socket (snd (tcp_write message w)) = None
    \<and> connect_attempts (emitted (tcp_write message) w) = 0
    \<and> connect_attempts (emitted (tcp_write next_message) (snd (tcp_write message w))) = 1
    \<and> (next_connect (snd (tcp_write message w)) \<noteq> Connected \<longrightarrow>
          log_socket (snd (tcp_write next_message (snd (tcp_write message w)))) = None)
    \<and> (stderr_ok w \<longrightarrow>
          fst (tcp_write message w) = Inr ()
          \<and> last (emitted (tcp_write message) w) = Stderr (message @ lit ''\<newline>'')
          \<and> fst (tcp_write next_message (snd (tcp_write message w))) = Inr ()
          \<and> (next_connect (snd (tcp_write message w)) \<noteq> Connected \<longrightarrow>
                emitted (tcp_write next_message) (snd (tcp_write message w)) =
                  [Connect (next_connect (snd (tcp_write message w))),
                   Stderr (next_message @ lit ''\<newline>'')]))
    \<and> (\<not> stderr_ok w \<longrightarrow>
          fst (tcp_write message w) = Inl OSError
          \<and> Stderr (message @ lit ''\<newline>'') \<notin> set (emitted (tcp_write message) w))
    \<and> (stderr_ok any_state \<longrightarrow> fst (tcp_write any_message any_state) = Inr ())"
proof -
  let ?w' = "snd (tcp_write message w)"
  from assms have not_ok: "fst (send_frame sock message w) \<noteq> Inr ()"
    by simp
  with assms(1) have unset: "log_socket ?w' = None"
    by (simp add: tcp_write_live_log_socket)
  from assms(1) have no_connect: "connect_attempts (emitted (tcp_write message) w) = 0"
    by (simp add: emitted_tcp_write connect_attempts_tcp_events)
  from unset have one: "connect_attempts (emitted (tcp_write next_message) ?w') = 1"
    by (simp add: emitted_tcp_write connect_attempts_tcp_events)
  from unset have stays: "next_connect ?w' \<noteq> Connected \<longrightarrow>
      log_socket (snd (tcp_write next_message ?w')) = None"
    by (simp add: tcp_write_unset_fails)
  have accepts: "fst (tcp_write message w) = Inr ()
      \<and> last (emitted (tcp_write message) w) = Stderr (message @ lit ''\<newline>'')
      \<and> fst (tcp_write next_message ?w') = Inr ()
      \<and> (next_connect ?w' \<noteq> Connected \<longrightarrow>
            emitted (tcp_write next_message) ?w' =
              [Connect (next_connect ?w'), Stderr (next_message @ lit ''\<newline>'')])"
    if ok: "stderr_ok w"
  proof -
    from ok have ok': "stderr_ok ?w'"
      by (simp add: tcp_write_stderr_ok)
    from not_ok ok have "last (send_events sock message w) = Stderr (message @ lit ''\<newline>'')"
      by (auto simp add: send_events_def fallback_events_def send_frame_ok split: sum.splits)
    with assms(1) have "last (emitted (tcp_write message) w) = Stderr (message @ lit ''\<newline>'')"
      by (simp add: emitted_tcp_write tcp_events_def)
    moreover from unset ok' have "next_connect ?w' \<noteq> Connected \<longrightarrow>
        emitted (tcp_write next_message) ?w' =
          [Connect (next_connect ?w'), Stderr (next_message @ lit ''\<newline>'')]"
      by (simp add: emitted_tcp_write tcp_events_def fallback_events_def)
    ultimately show ?thesis
      using ok ok' by (simp add: tcp_write_returns)
  qed
  have refuses: "fst (tcp_write message w) = Inl OSError
      \<and> Stderr (message @ lit ''\<newline>'') \<notin> set (emitted (tcp_write message) w)"
    if no: "\<not> stderr_ok w"
  proof -
    obtain r w2 where f: "send_frame sock message w = (r, w2)"
      by (cases "send_frame sock message w")
    with send_frame_stderr_ok [of sock message w] no have no2: "\<not> stderr_ok w2"
      by simp
    from f assms(2) have "r = Inl e"
      by simp
    with assms(1) f no2 have "fst (tcp_write message w) = Inl OSError"
      by (simp add: tcp_write_def get_log_socket_live stderr_write_def)
    moreover from no have "Stderr (message @ lit ''\<newline>'') \<notin> set (send_events sock message w)"
      by (simp add: send_events_def fallback_events_def split: sum.split)
    with assms(1) have "Stderr (message @ lit ''\<newline>'') \<notin> set (emitted (tcp_write message) w)"
      by (simp add: emitted_tcp_write tcp_events_def)
    ultimately show ?thesis
      by simp
  qed
  from unset no_connect one stays accepts refuses show ?thesis
    by (simp add: tcp_write_returns)
qed

theorem tcp_write_failure_handling_witness:
  "log_socket closed_by_peer = Some 0
   \<and> fst (send_frame 0 (lit ''a'') closed_by_peer) = Inl OSError
   \<and> stderr_ok closed_by_peer
   \<and> fst (tcp_write (lit ''a'') closed_by_peer) = Inr ()
   \<and> log_socket (snd (tcp_write (lit ''a'') closed_by_peer)) = None
   \<and> emitted (tcp_write (lit ''a'')) closed_by_peer =
       [Sendall 0 [45, 45, 45, 45, 45, 10, 97, 10] False, Stderr (lit ''a'' @ lit ''\<newline>'')]
   \<and> next_connect (snd (tcp_write (lit ''a'') closed_by_peer)) = ConnectFails
   \<and> fst (tcp_write (lit ''b'') (snd (tcp_write (lit ''a'') closed_by_peer))) = Inr ()
   \<and> emitted (tcp_write (lit ''b'')) (snd (tcp_write (lit ''a'') closed_by_peer)) =
       [Connect ConnectFails, Stderr (lit ''b'' @ lit ''\<newline>'')]
   \<and> connect_attempts
         (emitted (tcp_write (lit ''b'')) (snd (tcp_write (lit ''a'') closed_by_peer))) = 1
   \<and> log_socket closed_by_peer_stderr_closed = Some 0
   \<and> fst (send_frame 0 (lit ''a'') closed_by_peer_stderr_closed) = Inl OSError
   \<and> \<not> stderr_ok closed_by_peer_stderr_closed
   \<and> fst (tcp_write (lit ''a'') closed_by_peer_stderr_closed) = Inl OSError
   \<and> log_socket (snd (tcp_write (lit ''a'') closed_by_peer_stderr_closed)) = None
   \<and> Stderr (lit ''a'' @ lit ''\<newline>'')
         \<notin> set (emitted (tcp_write (lit ''a'')) closed_by_peer_stderr_closed)"
proof -
  have ls: "log_socket closed_by_peer = Some 0"
    by (simp add: closed_by_peer_def)
  have ok: "stderr_ok closed_by_peer"
    by (simp add: closed_by_peer_def)
  have ls': "log_socket closed_by_peer_stderr_closed = Some 0"
    by (simp add: closed_by_peer_stderr_closed_def closed_by_peer_def)
  have no: "\<not> stderr_ok closed_by_peer_stderr_closed"
    by (simp add: closed_by_peer_stderr_closed_def)
  have enc: "utf8_encode (lit ''a'') = Inr [97]"
    by (simp add: lit_def is_surrogate_def utf8_bytes_def)
  have fails: "fst (send_frame 0 (lit ''a'') closed_by_peer) = Inl OSError"
    by (simp add: send_frame_def utf8_encode_frame enc sock_sendall_def closed_by_peer_def)
  have ev: "emitted (tcp_write (lit ''a'')) closed_by_peer =
      [Sendall 0 [45, 45, 45, 45, 45, 10, 97, 10] False, Stderr (lit ''a'' @ lit ''\<newline>'')]"
    by (simp add: emitted_tcp_write tcp_events_def send_events_def fallback_events_def
        utf8_encode_frame enc closed_by_peer_def next_sendall_ok_def)
  have nc: "next_connect (snd (tcp_write (lit ''a'') closed_by_peer)) = ConnectFails"
    by (simp add: tcp_write_live_next_connect [OF ls]) (simp add: next_connect_def closed_by_peer_def)
  have fails': "fst (send_frame 0 (lit ''a'') closed_by_peer_stderr_closed) = Inl OSError"
    by (simp add: send_frame_def utf8_encode_frame enc sock_sendall_def
        closed_by_peer_stderr_closed_def closed_by_peer_def)
  from ev nc ok tcp_write_failure_handling [OF ls fails, where next_message = "lit ''b''"
      and any_message = "lit ''a''" and any_state = closed_by_peer]
  have accepting: "fst (tcp_write (lit ''a'') closed_by_peer) = Inr ()
     \<and> log_socket (snd (tcp_write (lit ''a'') closed_by_peer)) = None
     \<and> fst (tcp_write (lit ''b'') (snd (tcp_write (lit ''a'') closed_by_peer))) = Inr ()
     \<and> emitted (tcp_write (lit ''b'')) (snd (tcp_write (lit ''a'') closed_by_peer)) =
         [Connect ConnectFails, Stderr (lit ''b'' @ lit ''\<newline>'')]
     \<and> connect_attempts
         (emitted (tcp_write (lit ''b'')) (snd (tcp_write (lit ''a'') closed_by_peer))) = 1"
    by (simp add: connect_attempts_def)
  from no tcp_write_failure_handling [OF ls' fails', where next_message = "lit ''b''"
      and any_message = "lit ''a''" and any_state = closed_by_peer]
  have refusing: "fst (tcp_write (lit ''a'') closed_by_peer_stderr_closed) = Inl OSError
     \<and> log_socket (snd (tcp_write (lit ''a'') closed_by_peer_stderr_closed)) = None
     \<and> Stderr (lit ''a'' @ lit ''\<newline>'')
         \<notin> set (emitted (tcp_write (lit ''a'')) closed_by_peer_stderr_closed)"
    by simp
  from ls fails ok ev nc ls' fails' no accepting refusing show ?thesis
    by (simp add: connect_attempts_def)
qed

text \<open>
  C6 as stated fails: \<open>_tcp_write\<close> does raise, and the line is dropped, when the
  diagnostic stream refuses the write. With a stored connection that the sink has
  closed, the frame is refused, \<open>sys.stderr.write\<close> raises in the handler, the call
  raises \<open>OSError\<close> to its caller, and the line \<open>a\<close> has reached neither the sink nor the
  stream. The same happens when no connection can be made.
\<close>

theorem tcp_write_raises_counterexample:
  "log_socket closed_by_peer_stderr_closed = Some 0
   \<and> fst (send_frame 0 (lit ''a'') closed_by_peer_stderr_closed) = Inl OSError
   \<and> fst (tcp_write (lit ''a'') closed_by_peer_stderr_closed) = Inl OSError
   \<and> emitted (tcp_write (lit ''a'')) closed_by_peer_stderr_closed =
       [Sendall 0 [45, 45, 45, 45, 45, 10, 97, 10] False]
   \<and> log_socket unreachable_stderr_closed = None
   \<and> fst (tcp_write (lit ''a'') unreachable_stderr_closed) = Inl OSError
   \<and> emitted (tcp_write (lit ''a'')) unreachable_stderr_closed = [Connect ConnectFails]"
proof -
  have enc: "utf8_encode (lit ''a'') = Inr [97]"
    by (simp add: lit_def is_surrogate_def utf8_bytes_def)
  have fails: "fst (send_frame 0 (lit ''a'') closed_by_peer_stderr_closed) = Inl OSError"
    by (simp add: send_frame_def utf8_encode_frame enc sock_sendall_def
        closed_by_peer_stderr_closed_def closed_by_peer_def)
  have raises: "fst (tcp_write (lit ''a'') closed_by_peer_stderr_closed) = Inl OSError"
    by (simp add: tcp_write_def get_log_socket_def send_frame_def utf8_encode_frame enc
        sock_sendall_def stderr_write_def closed_by_peer_stderr_closed_def closed_by_peer_def)
  have ev: "emitted (tcp_write (lit ''a'')) closed_by_peer_stderr_closed =
      [Sendall 0 [45, 45, 45, 45, 45, 10, 97, 10] False]"
    by (simp add: emitted_tcp_write tcp_events_def send_events_def fallback_events_def
        utf8_encode_frame enc closed_by_peer_stderr_closed_def closed_by_peer_def
        next_sendall_ok_def)
  have raises': "fst (tcp_write (lit ''a'') unreachable_stderr_closed) = Inl OSError"
    by (simp add: tcp_write_def get_log_socket_def open_connection_def stderr_write_def
        unreachable_stderr_closed_def unreachable_def)
  have ev': "emitted (tcp_write (lit ''a'')) unreachable_stderr_closed = [Connect ConnectFails]"
    by (simp add: emitted_tcp_write tcp_events_def fallback_events_def next_connect_def
        unreachable_stderr_closed_def unreachable_def)
  from fails raises ev raises' ev' show ?thesis
    by (simp add: closed_by_peer_stderr_closed_def closed_by_peer_def
        unreachable_stderr_closed_def unreachable_def)
qed

section \<open>The duplex interceptor\<close>

text \<open>
  C7. A falsy message (the empty text, the empty \<open>bytes\<close>, \<open>None\<close>, an object that
  tests false) is never mirrored: the wrapped \<open>send\<close> and \<open>write\<close> do exactly what the
  original operation does on the same message and the same state, and the wrapped
  \<open>receive\<close> returns the message in the state that the original \<open>receive\<close> left.
\<close>

theorem falsy_not_mirrored:
  "(\<not> truthy data \<longrightarrow>
      logged_send lib original_send data st = original_send data st
      \<and> logged_write lib original_write data st = original_write data st)
   \<and> (original_receive st = (Inr data, st') \<and> \<not> truthy data \<longrightarrow>
        logged_receive lib original_receive st = (Inr data, st'))
   \<and> \<not> truthy (PStr []) \<and> \<not> truthy (PBytes []) \<and> \<not> truthy PNone
   \<and> \<not> truthy (PObj False m r dj d s)"
  by (cases st; cases st') (simp add: logged_send_def logged_write_def logged_receive_def)

theorem falsy_not_mirrored_witness:
  "\<not> truthy (PStr [] :: pystr pyval)
   \<and> lift_receive (receive_of (PStr [])) (0, live) = (Inr (PStr [] :: pystr pyval), (1, live))
   \<and> logged_send lib0 (lift_send counting_send) (PStr []) (0, live) = (Inr (), (1, live))
   \<and> logged_write lib0 (lift_send counting_send) (PStr []) (0, live) = (Inr (), (1, live))
   \<and> logged_receive lib0 (lift_receive (receive_of (PStr []))) (0, live)
       = (Inr (PStr []), (1, live))"
  using falsy_not_mirrored [of "PStr []" lib0 "lift_send counting_send" "(0, live)"
      "lift_send counting_send" "lift_receive (receive_of (PStr []))" "(1, live)"]
  by (simp add: lift_send_def lift_receive_def counting_send_def receive_of_def)

text \<open>
  C1, as amended. As long as the diagnostic stream accepts what is written to it, a
  failure of the sink never reaches the caller and never keeps the original operation
  from running: whenever the encoder returns a line for a message, then in every state
  of the connection, and whatever connecting and sending do, the wrapped \<open>send\<close> and
  \<open>write\<close> mirror the line without raising and then run the original operation, whose
  outcome they return, and the wrapped \<open>receive\<close> returns the message that the original
  \<open>receive\<close> delivered.
\<close>

theorem sink_failure_isolated:
  "(truthy data \<and> encode_output lib data = Inr line \<and> stderr_ok w \<longrightarrow>
      mirror_output lib data w = (Inr (), snd (tcp_write line w))
      \<and> logged_send lib original_send data (c, w)
          = original_send data (c, snd (tcp_write line w)))
   \<and> (truthy wdata \<and> encode_write lib wdata = Inr wline \<and> stderr_ok w \<longrightarrow>
        mirror_write lib wdata w = (Inr (), snd (tcp_write wline w))
        \<and> logged_write lib original_write wdata (c, w)
            = original_write wdata (c, snd (tcp_write wline w)))
   \<and> (original_receive st = (Inr msg, (c', w')) \<and> truthy msg
        \<and> encode_input lib msg = Inr rline \<and> stderr_ok w' \<longrightarrow>
        mirror_input lib msg w' = (Inr (), snd (tcp_write rline w'))
        \<and> logged_receive lib original_receive st
            = (Inr msg, (c', snd (tcp_write rline w'))))"
  by (simp add: logged_send_encode logged_write_encode logged_receive_encode
      mirror_output_encode mirror_write_encode mirror_input_encode emit_Inr)

theorem sink_failure_isolated_witness:
  "truthy ping
   \<and> stderr_ok closed_by_peer
   \<and> encode_output lib0 ping = Inr (lit ''OUTPUT: '' @ lit ''ping'')
   \<and> encode_write lib0 ping = Inr (lit ''OUTPUT: '' @ lit ''ping'')
   \<and> encode_input lib0 ping = Inr (lit ''INPUT: '' @ lit ''ping'')
   \<and> lift_receive (receive_of ping) (0, closed_by_peer) = (Inr ping, (1, closed_by_peer))
   \<and> logged_send lib0 (lift_send counting_send) ping (0, closed_by_peer)
       = (Inr (), (1, snd (tcp_write (lit ''OUTPUT: '' @ lit ''ping'') closed_by_peer)))
   \<and> logged_write lib0 (lift_send counting_send) ping (0, closed_by_peer)
       = (Inr (), (1, snd (tcp_write (lit ''OUTPUT: '' @ lit ''ping'') closed_by_peer)))
   \<and> logged_receive lib0 (lift_receive (receive_of ping)) (0, closed_by_peer)
       = (Inr ping, (1, snd (tcp_write (lit ''INPUT: '' @ lit ''ping'') closed_by_peer)))
   \<and> log_socket (snd (tcp_write (lit ''OUTPUT: '' @ lit ''ping'') closed_by_peer)) = None"
proof -
  have t: "truthy ping"
    by (simp add: ping_def lit_def)
  have ok: "stderr_ok closed_by_peer"
    by (simp add: closed_by_peer_def)
  have s: "strip (lit ''ping'') = lit ''ping''"
    by (simp add: strip_def lstrip_def rstrip_def lit_def py_isspace_def)
  have out: "encode_output lib0 ping = Inr (lit ''OUTPUT: '' @ lit ''ping'')"
    and wr: "encode_write lib0 ping = Inr (lit ''OUTPUT: '' @ lit ''ping'')"
    and inp: "encode_input lib0 ping = Inr (lit ''INPUT: '' @ lit ''ping'')"
    by (simp_all add: ping_def s)
  have rc: "lift_receive (receive_of ping) (0, closed_by_peer) = (Inr ping, (1, closed_by_peer))"
    by (simp add: lift_receive_def receive_of_def)
  have "fst (send_frame 0 (lit ''OUTPUT: '' @ lit ''ping'') closed_by_peer) \<noteq> Inr ()"
    by (simp add: send_frame_ok next_sendall_ok_def closed_by_peer_def)
  then have dropped:
    "log_socket (snd (tcp_write (lit ''OUTPUT: '' @ lit ''ping'') closed_by_peer)) = None"
    by (simp add: tcp_write_live_log_socket [where sock = 0] closed_by_peer_def)
  have sent: "\<And>w. lift_send counting_send ping (0, w) = (Inr (), (1, w))"
    by (simp add: lift_send_def counting_send_def)
  from t ok out wr inp rc dropped
    sink_failure_isolated [where data = ping and wdata = ping and msg = ping
      and lib = lib0 and line = "lit ''OUTPUT: '' @ lit ''ping''"
      and wline = "lit ''OUTPUT: '' @ lit ''ping''"
      and rline = "lit ''INPUT: '' @ lit ''ping''"
      and w = closed_by_peer and c = 0 and w' = closed_by_peer and c' = 1
      and original_send = "lift_send counting_send"
      and original_write = "lift_send counting_send"
      and original_receive = "lift_receive (receive_of ping)" and st = "(0, closed_by_peer)"]
  show ?thesis
    by (simp add: sent)
qed

text \<open>
  C1 as stated fails: a raise inside the encoding chain is not caught. For an object
  whose \<open>model_dump_json()\<close> raises, the wrapped \<open>send\<close> raises that error to its caller
  and the original \<open>send\<close> is not run (the transport has still carried out no operation),
  while the original \<open>send\<close> alone would have returned.
\<close>

theorem encoder_failure_surfaces_counterexample:
  "logged_send lib0 (lift_send counting_send) failing_model (0, unreachable)
     = (Inl ValueError, (0, unreachable))
   \<and> lift_send counting_send failing_model (0, unreachable) = (Inr (), (1, unreachable))"
  by (simp add: logged_send_def failing_model_def write_model_dump_json_def lift_send_def
      counting_send_def has_message_root_def)

text \<open>
  C2, as amended. As long as the diagnostic stream accepts what is written to it, on
  every input for which the encoder returns a line, and on every falsy input, an
  operation of the wrapped channel returns exactly what the operation of the unwrapped
  channel returns, and leaves the channel in the same state: the mirroring changes the
  logging state of the process only. This covers every text and every \<open>bytes\<close> value
  sent or written, and every text received.
\<close>

theorem wrapped_returns_same:
  "(stderr_ok w \<and> (\<not> truthy data \<or> \<not> isl (encode_output lib data)) \<longrightarrow>
      fst (logged_send lib (lift_send send_op) data (c, w)) = fst (send_op data c)
      \<and> fst (snd (logged_send lib (lift_send send_op) data (c, w))) = snd (send_op data c))
   \<and> (stderr_ok w \<and> (\<not> truthy wdata \<or> \<not> isl (encode_write lib wdata)) \<longrightarrow>
        fst (logged_write lib (lift_send write_op) wdata (c, w)) = fst (write_op wdata c)
        \<and> fst (snd (logged_write lib (lift_send write_op) wdata (c, w)))
            = snd (write_op wdata c))
   \<and> (stderr_ok w
        \<and> (\<forall>msg. fst (receive_op c) = Inr msg \<and> truthy msg \<longrightarrow> \<not> isl (encode_input lib msg))
        \<longrightarrow>
        fst (logged_receive lib (lift_receive receive_op) (c, w)) = fst (receive_op c)
        \<and> fst (snd (logged_receive lib (lift_receive receive_op) (c, w)))
            = snd (receive_op c))
   \<and> \<not> isl (encode_output lib (PStr s)) \<and> \<not> isl (encode_output lib (PBytes bs))
   \<and> \<not> isl (encode_write lib (PStr s)) \<and> \<not> isl (encode_write lib (PBytes bs))
   \<and> \<not> isl (encode_input lib (PStr s))"
proof -
  have snd_part: "stderr_ok w \<and> (\<not> truthy data \<or> \<not> isl (encode_output lib data)) \<longrightarrow>
      fst (logged_send lib (lift_send send_op) data (c, w)) = fst (send_op data c)
      \<and> fst (snd (logged_send lib (lift_send send_op) data (c, w))) = snd (send_op data c)"
    by (cases "encode_output lib data")
      (simp_all add: logged_send_encode lift_send_def split: prod.split)
  have wr_part: "stderr_ok w \<and> (\<not> truthy wdata \<or> \<not> isl (encode_write lib wdata)) \<longrightarrow>
      fst (logged_write lib (lift_send write_op) wdata (c, w)) = fst (write_op wdata c)
      \<and> fst (snd (logged_write lib (lift_send write_op) wdata (c, w)))
          = snd (write_op wdata c)"
    by (cases "encode_write lib wdata")
      (simp_all add: logged_write_encode lift_send_def split: prod.split)
  have rcv_part: "stderr_ok w
      \<and> (\<forall>msg. fst (receive_op c) = Inr msg \<and> truthy msg \<longrightarrow> \<not> isl (encode_input lib msg))
      \<longrightarrow>
      fst (logged_receive lib (lift_receive receive_op) (c, w)) = fst (receive_op c)
      \<and> fst (snd (logged_receive lib (lift_receive receive_op) (c, w)))
          = snd (receive_op c)"
  proof (cases "receive_op c")
    case (Pair r c')
    show ?thesis
    proof (cases r)
      case (Inl e)
      with Pair have "lift_receive receive_op (c, w) = (Inl e, (c', w))"
        by (simp add: lift_receive_def)
      then have "logged_receive lib (lift_receive receive_op) (c, w) = (Inl e, (c', w))"
        by (rule logged_receive_raises)
      with Pair Inl show ?thesis by simp
    next
      case (Inr msg)
      with Pair have orig: "lift_receive receive_op (c, w) = (Inr msg, (c', w))"
        by (simp add: lift_receive_def)
      show ?thesis
      proof (intro impI, elim conjE)
        assume ok: "stderr_ok w"
          and enc: "\<forall>msg. fst (receive_op c) = Inr msg \<and> truthy msg
            \<longrightarrow> \<not> isl (encode_input lib msg)"
        show "fst (logged_receive lib (lift_receive receive_op) (c, w)) = fst (receive_op c)
          \<and> fst (snd (logged_receive lib (lift_receive receive_op) (c, w)))
              = snd (receive_op c)"
          using Pair Inr enc
          by (cases "encode_input lib msg")
            (simp_all add: logged_receive_encode
              [where original_receive = "lift_receive receive_op" and st = "(c, w)",
                OF orig ok])
      qed
    qed
  qed
  from snd_part wr_part rcv_part show ?thesis
    by simp
qed

theorem wrapped_returns_same_witness:
  "stderr_ok unreachable
   \<and> \<not> isl (encode_output lib0 session_message)
   \<and> \<not> isl (encode_write lib0 ping)
   \<and> fst (receive_of session_message (0::nat)) = Inr session_message
   \<and> \<not> isl (encode_input lib0 session_message)
   \<and> fst (logged_send lib0 (lift_send counting_send) session_message (0, unreachable)) = Inr ()
   \<and> fst (snd (logged_send lib0 (lift_send counting_send) session_message (0, unreachable))) = 1
   \<and> fst (logged_write lib0 (lift_send counting_send) ping (0, unreachable)) = Inr ()
   \<and> fst (logged_receive lib0 (lift_receive (receive_of session_message)) (0, unreachable))
       = Inr session_message
   \<and> fst (snd (logged_receive lib0 (lift_receive (receive_of session_message))
         (0, unreachable))) = 1"
proof -
  have ok: "stderr_ok unreachable"
    by (simp add: unreachable_def)
  have out: "encode_output lib0 session_message = Inr (lit ''OUTPUT: '' @ lit ''{id:1}'')"
    and inp: "encode_input lib0 session_message = Inr (lit ''INPUT: '' @ lit ''{id:1}'')"
    by (simp_all add: session_message_def rpc_root_def serialize_envelope_def
        has_message_root_def message_root_def serialize_root_def tagged_def)
  have wr: "\<not> isl (encode_write lib0 ping)"
    by (simp add: ping_def)
  from ok out inp wr
    wrapped_returns_same [where data = session_message and wdata = ping and lib = lib0
      and send_op = counting_send and write_op = counting_send
      and receive_op = "receive_of session_message" and c = 0 and w = unreachable
      and s = "[]" and bs = "[]"]
  show ?thesis
    by (simp add: counting_send_def receive_of_def)
qed

text \<open>
  C2 as stated fails: the unwrapped \<open>receive\<close> returns an object whose \<open>root\<close> attribute
  is a plain string, and the wrapped \<open>receive\<close> raises \<open>AttributeError\<close> instead of
  returning it, because the string has neither \<open>model_dump_json\<close> nor \<open>model_dump\<close>.
\<close>

theorem wrapped_receive_differs_counterexample:
  "fst (receive_of text_rooted (0::nat)) = Inr text_rooted
   \<and> fst (logged_receive lib0 (lift_receive (receive_of text_rooted)) (0, unreachable))
       = Inl AttributeError"
  by (simp add: logged_receive_def lift_receive_def receive_of_def text_rooted_def
      has_message_root_def write_root_def write_model_dump_json_def write_model_dump_def)

text \<open>
  C4, as amended. A text message is used as it is, trimmed on the input side only, and
  there at both ends: for a received string \<open>s\<close> the line handed to \<open>_tcp_write\<close> is
  \<open>INPUT: \<close> followed by \<open>s.strip()\<close>, which is \<open>s\<close> without the whitespace before its
  first and after its last non-whitespace character, everything in between preserved;
  for a sent or written string it is \<open>OUTPUT: \<close> followed by the string itself. A
  non-empty text makes the wrapped operation call \<open>_tcp_write\<close> on that line once and
  then, unless that call raises, carry on with the original result; the call does not
  raise while the diagnostic stream accepts.
\<close>

theorem text_mirrored:
  "mirror_input lib (PStr s) w = tcp_write (lit ''INPUT: '' @ strip s) w
   \<and> mirror_output lib (PStr t) w' = tcp_write (lit ''OUTPUT: '' @ t) w'
   \<and> mirror_write lib (PStr t) w' = tcp_write (lit ''OUTPUT: '' @ t) w'
   \<and> (original_receive st = (Inr (PStr s), (c, w)) \<and> s \<noteq> [] \<longrightarrow>
        logged_receive lib original_receive st
          = (case tcp_write (lit ''INPUT: '' @ strip s) w of
               (Inl e, w1) \<Rightarrow> (Inl e, (c, w1))
             | (Inr u, w1) \<Rightarrow> (Inr (PStr s), (c, w1))))
   \<and> (t \<noteq> [] \<longrightarrow>
        logged_send lib original_send (PStr t) (c', w')
          = (case tcp_write (lit ''OUTPUT: '' @ t) w' of
               (Inl e, w1) \<Rightarrow> (Inl e, (c', w1))
             | (Inr u, w1) \<Rightarrow> original_send (PStr t) (c', w1))
        \<and> logged_write lib original_write (PStr t) (c', w')
            = (case tcp_write (lit ''OUTPUT: '' @ t) w' of
                 (Inl e, w1) \<Rightarrow> (Inl e, (c', w1))
               | (Inr u, w1) \<Rightarrow> original_write (PStr t) (c', w1)))
   \<and> (original_receive st = (Inr (PStr s), (c, w)) \<and> s \<noteq> [] \<and> stderr_ok w \<longrightarrow>
        logged_receive lib original_receive st
          = (Inr (PStr s), (c, snd (tcp_write (lit ''INPUT: '' @ strip s) w))))
   \<and> (t \<noteq> [] \<and> stderr_ok w' \<longrightarrow>
        logged_send lib original_send (PStr t) (c', w')
          = original_send (PStr t) (c', snd (tcp_write (lit ''OUTPUT: '' @ t) w'))
        \<and> logged_write lib original_write (PStr t) (c', w')
            = original_write (PStr t) (c', snd (tcp_write (lit ''OUTPUT: '' @ t) w')))
   \<and> (\<exists>before after. s = before @ strip s @ after
         \<and> list_all py_isspace before \<and> list_all py_isspace after)
   \<and> (strip s \<noteq> [] \<longrightarrow>
         \<not> py_isspace (hd (strip s)) \<and> \<not> py_isspace (last (strip s)))"
proof -
  have chains: "mirror_input lib (PStr s) w = tcp_write (lit ''INPUT: '' @ strip s) w"
    "mirror_output lib (PStr t) w' = tcp_write (lit ''OUTPUT: '' @ t) w'"
    "mirror_write lib (PStr t) w' = tcp_write (lit ''OUTPUT: '' @ t) w'"
    by simp_all
  have received: "logged_receive lib original_receive st
      = (case tcp_write (lit ''INPUT: '' @ strip s) w of
           (Inl e, w1) \<Rightarrow> (Inl e, (c, w1))
         | (Inr u, w1) \<Rightarrow> (Inr (PStr s), (c, w1)))"
    if "original_receive st = (Inr (PStr s), (c, w))" and "s \<noteq> []"
    using that by (simp add: logged_receive_def)
  have sent: "logged_send lib original_send (PStr t) (c', w')
      = (case tcp_write (lit ''OUTPUT: '' @ t) w' of
           (Inl e, w1) \<Rightarrow> (Inl e, (c', w1))
         | (Inr u, w1) \<Rightarrow> original_send (PStr t) (c', w1))"
    and written: "logged_write lib original_write (PStr t) (c', w')
      = (case tcp_write (lit ''OUTPUT: '' @ t) w' of
           (Inl e, w1) \<Rightarrow> (Inl e, (c', w1))
         | (Inr u, w1) \<Rightarrow> original_write (PStr t) (c', w1))"
    if "t \<noteq> []"
    using that by (simp_all add: logged_send_def logged_write_def)
  have received_ok: "logged_receive lib original_receive st
      = (Inr (PStr s), (c, snd (tcp_write (lit ''INPUT: '' @ strip s) w)))"
    if "original_receive st = (Inr (PStr s), (c, w))" and "s \<noteq> []" and "stderr_ok w"
    using that by (simp add: logged_receive_encode)
  have sent_ok: "logged_send lib original_send (PStr t) (c', w')
      = original_send (PStr t) (c', snd (tcp_write (lit ''OUTPUT: '' @ t) w'))"
    and written_ok: "logged_write lib original_write (PStr t) (c', w')
      = original_write (PStr t) (c', snd (tcp_write (lit ''OUTPUT: '' @ t) w'))"
    if "t \<noteq> []" and "stderr_ok w'"
    using that by (simp_all add: logged_send_encode logged_write_encode)
  from chains received sent written received_ok sent_ok written_ok strip_spec [of s]
  show ?thesis
    by blast
qed

theorem text_mirrored_witness:
  "lift_receive (receive_of (PStr (lit ''  ping \<newline>''))) (0, unreachable)
     = (Inr (PStr (lit ''  ping \<newline>'') :: pystr pyval), (1, unreachable))
   \<and> stderr_ok unreachable
   \<and> strip (lit ''  ping \<newline>'') = lit ''ping''
   \<and> logged_receive lib0 (lift_receive (receive_of (PStr (lit ''  ping \<newline>''))))
         (0, unreachable)
       = (Inr (PStr (lit ''  ping \<newline>'')),
          (1, snd (tcp_write (lit ''INPUT: '' @ lit ''ping'') unreachable)))
   \<and> trace (snd (tcp_write (lit ''INPUT: '' @ lit ''ping'') unreachable))
       = [Connect ConnectFails, Stderr (lit ''INPUT: ping\<newline>'')]
   \<and> logged_send lib0 (lift_send counting_send) (PStr (lit '' pong '')) (0, unreachable)
       = (Inr (), (1, snd (tcp_write (lit ''OUTPUT: '' @ lit '' pong '') unreachable)))
   \<and> trace (snd (tcp_write (lit ''OUTPUT: '' @ lit '' pong '') unreachable))
       = [Connect ConnectFails, Stderr (lit ''OUTPUT:  pong \<newline>'')]"
proof -
  have rc: "lift_receive (receive_of (PStr (lit ''  ping \<newline>''))) (0, unreachable)
     = (Inr (PStr (lit ''  ping \<newline>'') :: pystr pyval), (1, unreachable))"
    by (simp add: lift_receive_def receive_of_def)
  have ok: "stderr_ok unreachable"
    by (simp add: unreachable_def)
  have s: "strip (lit ''  ping \<newline>'') = lit ''ping''"
    by (simp add: strip_def lstrip_def rstrip_def lit_def py_isspace_def)
  have ne: "lit ''  ping \<newline>'' \<noteq> []" "lit '' pong '' \<noteq> []"
    by (simp_all add: lit_def)
  have tr: "trace (snd (tcp_write (lit ''INPUT: '' @ lit ''ping'') unreachable))
       = [Connect ConnectFails, Stderr (lit ''INPUT: ping\<newline>'')]"
    "trace (snd (tcp_write (lit ''OUTPUT: '' @ lit '' pong '') unreachable))
       = [Connect ConnectFails, Stderr (lit ''OUTPUT:  pong \<newline>'')]"
    by (simp_all add: tcp_write_trace tcp_events_def fallback_events_def unreachable_def
        next_connect_def lit_def)
  have sent: "\<And>w. lift_send counting_send (PStr (lit '' pong '')) (0, w) = (Inr (), (1, w))"
    by (simp add: lift_send_def counting_send_def)
  note mirrored =
    text_mirrored [where s = "lit ''  ping \<newline>''" and t = "lit '' pong ''"
      and lib = lib0 and c = 1 and w = unreachable and c' = 0 and w' = unreachable
      and original_receive = "lift_receive (receive_of (PStr (lit ''  ping \<newline>'')))"
      and st = "(0, unreachable)" and original_send = "lift_send counting_send"
      and original_write = "lift_send counting_send"]
  note guarded = mirrored [THEN conjunct2, THEN conjunct2, THEN conjunct2, THEN conjunct2,
      THEN conjunct2]
  from rc ok ne guarded [THEN conjunct1]
  have "logged_receive lib0 (lift_receive (receive_of (PStr (lit ''  ping \<newline>''))))
         (0, unreachable)
       = (Inr (PStr (lit ''  ping \<newline>'')),
          (1, snd (tcp_write (lit ''INPUT: '' @ strip (lit ''  ping \<newline>'')) unreachable)))"
    by simp
  moreover from ok ne guarded [THEN conjunct2, THEN conjunct1]
  have "logged_send lib0 (lift_send counting_send) (PStr (lit '' pong '')) (0, unreachable)
       = lift_send counting_send (PStr (lit '' pong '') :: pystr pyval)
           (0, snd (tcp_write (lit ''OUTPUT: '' @ lit '' pong '') unreachable))"
    by simp
  ultimately have "logged_receive lib0
         (lift_receive (receive_of (PStr (lit ''  ping \<newline>'')))) (0, unreachable)
       = (Inr (PStr (lit ''  ping \<newline>'')),
          (1, snd (tcp_write (lit ''INPUT: '' @ strip (lit ''  ping \<newline>'')) unreachable)))
     \<and> logged_send lib0 (lift_send counting_send) (PStr (lit '' pong '')) (0, unreachable)
       = lift_send counting_send (PStr (lit '' pong '') :: pystr pyval)
           (0, snd (tcp_write (lit ''OUTPUT: '' @ lit '' pong '') unreachable))"
    by simp
  with rc ok s tr show ?thesis
    by (simp add: sent)
qed

text \<open>
  C4 as stated fails: leading whitespace is not preserved. The received string
  \<open>" ping"\<close> has no trailing whitespace, so trimming trailing whitespace only would
  mirror \<open>"INPUT:  ping"\<close> with two spaces; the code mirrors \<open>"INPUT: ping"\<close>.
\<close>

theorem leading_space_stripped_counterexample:
  "rstrip (lit '' ping'') = lit '' ping''
   \<and> trace (snd (snd (logged_receive lib0 (lift_receive (receive_of (PStr (lit '' ping''))))
         (0, unreachable))))
       = [Connect ConnectFails, Stderr (lit ''INPUT: ping\<newline>'')]
   \<and> trace (snd (snd (logged_receive lib0 (lift_receive (receive_of (PStr (lit '' ping''))))
         (0, unreachable))))
       \<noteq> [Connect ConnectFails, Stderr (lit ''INPUT: '' @ rstrip (lit '' ping'') @ lit ''\<newline>'')]"
proof -
  have r: "rstrip (lit '' ping'') = lit '' ping''"
    by (simp add: rstrip_def lit_def py_isspace_def)
  have s: "strip (lit '' ping'') = lit ''ping''"
    by (simp add: strip_def lstrip_def rstrip_def lit_def py_isspace_def)
  have rc: "lift_receive (receive_of (PStr (lit '' ping''))) (0, unreachable)
      = (Inr (PStr (lit '' ping'') :: pystr pyval), (1, unreachable))"
    by (simp add: lift_receive_def receive_of_def)
  have ok: "stderr_ok unreachable"
    by (simp add: unreachable_def)
  have ne: "lit '' ping'' \<noteq> []"
    by (simp add: lit_def)
  have "logged_receive lib0 (lift_receive (receive_of (PStr (lit '' ping'')))) (0, unreachable)
      = (Inr (PStr (lit '' ping'')), (1, snd (tcp_write (lit ''INPUT: '' @ lit ''ping'') unreachable)))"
    using ne
    by (simp add: logged_receive_encode
        [where original_receive = "lift_receive (receive_of (PStr (lit '' ping'')))"
          and st = "(0, unreachable)", OF rc ok] s)
  moreover have "trace (snd (tcp_write (lit ''INPUT: '' @ lit ''ping'') unreachable))
      = [Connect ConnectFails, Stderr (lit ''INPUT: ping\<newline>'')]"
    by (simp add: tcp_write_trace tcp_events_def fallback_events_def unreachable_def
        next_connect_def lit_def)
  ultimately show ?thesis
    using r by (simp add: lit_def)
qed

section \<open>The canonical message encoder\<close>




section \<open>Installing the interceptor\<close>




section \<open>Running commands and code\<close>

text \<open>
  C10, as amended. \<open>run_command\<close> runs every command with a timeout of 10 seconds: its
  result depends on the operating system only through what \<open>subprocess.run\<close> does under
  that timeout. When the timeout expires it does not raise but returns the dictionary
  with return code \<open>-2\<close>, empty \<open>stdout\<close> and \<open>stderr\<close> \<open>Error: Execution timed out\<close>. When
  \<open>subprocess.run\<close> returns the completed process it returns the process's return code
  with both outputs stripped: each is the original output without the whitespace before
  its first and after its last non-whitespace character. Every other exception of
  \<open>subprocess.run\<close> is raised to the caller, also when the process has completed.
\<close>

theorem run_command_result:
  "(subprocess_run env cmd (Some 10) = Inl TimeoutExpired \<longrightarrow>
      run_command env cmd
        = Inr \<lparr>returncode = - 2, stdout = [], stderr = lit ''Error: Execution timed out''\<rparr>)
   \<and> (subprocess_run env cmd' (Some 10) = Inr result \<longrightarrow>
        run_command env cmd'
          = Inr \<lparr>returncode = returncode result, stdout = strip (stdout result),
                 stderr = strip (stderr result)\<rparr>
        \<and> (\<exists>before after. stdout result = before @ strip (stdout result) @ after
              \<and> list_all py_isspace before \<and> list_all py_isspace after)
        \<and> (strip (stdout result) \<noteq> [] \<longrightarrow>
              \<not> py_isspace (hd (strip (stdout result)))
              \<and> \<not> py_isspace (last (strip (stdout result))))
        \<and> (\<exists>before after. stderr result = before @ strip (stderr result) @ after
              \<and> list_all py_isspace before \<and> list_all py_isspace after)
        \<and> (strip (stderr result) \<noteq> [] \<longrightarrow>
              \<not> py_isspace (hd (strip (stderr result)))
              \<and> \<not> py_isspace (last (strip (stderr result)))))
   \<and> (subprocess_run env cmd'' (Some 10) = subprocess_run env' cmd'' (Some 10) \<longrightarrow>
        run_command env cmd'' = run_command env' cmd'')
   \<and> run_command env cmd''' \<noteq> Inl TimeoutExpired
   \<and> (subprocess_run env other_cmd (Some 10) = Inl raised \<and> raised \<noteq> TimeoutExpired \<longrightarrow>
        run_command env other_cmd = Inl raised)"
proof -
  have timeout: "subprocess_run env cmd (Some 10) = Inl TimeoutExpired \<longrightarrow>
      run_command env cmd
        = Inr \<lparr>returncode = - 2, stdout = [], stderr = lit ''Error: Execution timed out''\<rparr>"
    by (simp add: run_command_def)
  have completes: "subprocess_run env cmd' (Some 10) = Inr result \<longrightarrow>
      run_command env cmd'
        = Inr \<lparr>returncode = returncode result, stdout = strip (stdout result),
               stderr = strip (stderr result)\<rparr>"
    by (simp add: run_command_def)
  have same: "subprocess_run env cmd'' (Some 10) = subprocess_run env' cmd'' (Some 10) \<longrightarrow>
      run_command env cmd'' = run_command env' cmd''"
    by (simp add: run_command_def)
  have caught: "run_command env cmd''' \<noteq> Inl TimeoutExpired"
    by (simp add: run_command_def split: sum.split)
  have passed: "subprocess_run env other_cmd (Some 10) = Inl raised \<and> raised \<noteq> TimeoutExpired
      \<longrightarrow> run_command env other_cmd = Inl raised"
    by (simp add: run_command_def)
  from timeout completes same caught passed strip_spec [of "stdout result"]
    strip_spec [of "stderr result"]
  show ?thesis
    by blast
qed

theorem run_command_result_witness:
  "subprocess_run sample_os [lit ''sleep'', lit ''60''] (Some 10) = Inl TimeoutExpired
   \<and> run_command sample_os [lit ''sleep'', lit ''60'']
       = Inr \<lparr>returncode = - 2, stdout = [], stderr = lit ''Error: Execution timed out''\<rparr>
   \<and> subprocess_run sample_os [lit ''python3'', lit ''-c'', lit ''print('exp')\<newline>print(1)'']
         (Some 10)
       = Inr \<lparr>returncode = 0, stdout = lit ''exp\<newline>1\<newline>'', stderr = []\<rparr>
   \<and> strip (lit ''exp\<newline>1\<newline>'') = lit ''exp\<newline>1''
   \<and> run_command sample_os [lit ''python3'', lit ''-c'', lit ''print('exp')\<newline>print(1)'']
       = Inr \<lparr>returncode = 0, stdout = lit ''exp\<newline>1'', stderr = []\<rparr>
   \<and> subprocess_run sample_os [lit ''ls''] (Some 10) = Inl FileNotFoundError
   \<and> run_command sample_os [lit ''ls''] = Inl FileNotFoundError"
proof -
  have t: "subprocess_run sample_os [lit ''sleep'', lit ''60''] (Some 10) = Inl TimeoutExpired"
    by (simp add: sample_os_def)
  have c: "subprocess_run sample_os
        [lit ''python3'', lit ''-c'', lit ''print('exp')\<newline>print(1)''] (Some 10)
      = Inr \<lparr>returncode = 0, stdout = lit ''exp\<newline>1\<newline>'', stderr = []\<rparr>"
    by (simp add: sample_os_def lit_def)
  have n: "subprocess_run sample_os [lit ''ls''] (Some 10) = Inl FileNotFoundError"
    by (simp add: sample_os_def lit_def)
  have s: "strip (lit ''exp\<newline>1\<newline>'') = lit ''exp\<newline>1''" "strip [] = []"
    by (simp_all add: strip_def lstrip_def rstrip_def lit_def py_isspace_def)
  from t c n s
    run_command_result [where env = sample_os and env' = sample_os
      and cmd = "[lit ''sleep'', lit ''60'']"
      and cmd' = "[lit ''python3'', lit ''-c'', lit ''print('exp')\<newline>print(1)'']"
      and cmd'' = "[lit ''sleep'', lit ''60'']" and cmd''' = "[lit ''sleep'', lit ''60'']"
      and other_cmd = "[lit ''ls'']" and raised = FileNotFoundError
      and result = "\<lparr>returncode = 0, stdout = lit ''exp\<newline>1\<newline>'', stderr = []\<rparr>"]
  show ?thesis
    by simp
qed

text \<open>
  C10 as stated fails: a process that completes does not always give a dictionary. The
  command writes the single octet \<open>0xFF\<close> and exits with status 0; \<open>subprocess.run\<close>,
  called with \<open>text=True\<close>, cannot decode the captured output and raises
  \<open>UnicodeDecodeError\<close>, which \<open>run_command\<close>, catching \<open>TimeoutExpired\<close> only, raises to
  its caller instead of returning the return code and the stripped outputs.
\<close>

theorem run_command_undecodable_counterexample:
  "subprocess_run undecodable_os [lit ''printf'', 92 # lit ''377''] (Some 10)
     = Inl UnicodeDecodeError
   \<and> run_command undecodable_os [lit ''printf'', 92 # lit ''377''] = Inl UnicodeDecodeError"
  by (simp add: run_command_def undecodable_os_def)

text \<open>
  C9, as amended. With the temporary-directory mode disabled, \<open>code_exec_python\<close> does
  not run the caller's code verbatim: once the dependency step has returned with
  return code 0 (as it does when no package is asked for), it runs \<open>python3 -c\<close> on the
  statement \<open>print('exp')\<close>, a newline, and the supplied code, and reports what
  \<open>run_command\<close> returns for that command. The reported \<open>stdout\<close> begins with \<open>exp\<close>
  whenever the process's output begins with it.
\<close>

theorem code_exec_python_prefix:
  "(install_dependencies env packages (lit ''pip'') = Inr install_result
      \<and> returncode install_result = 0 \<longrightarrow>
      code_exec_python env False code packages
        = run_command env [lit ''python3'', lit ''-c'', lit ''print('exp')\<newline>'' @ code])
   \<and> code_exec_python env False code None
       = run_command env [lit ''python3'', lit ''-c'', lit ''print('exp')\<newline>'' @ code]
   \<and> code_exec_python env False code (Some [])
       = run_command env [lit ''python3'', lit ''-c'', lit ''print('exp')\<newline>'' @ code]
   \<and> lit ''print('exp')\<newline>'' @ code \<noteq> code
   \<and> (subprocess_run env [lit ''python3'', lit ''-c'', lit ''print('exp')\<newline>'' @ code]
          (Some 10) = Inr \<lparr>returncode = rc, stdout = lit ''exp'' @ rest, stderr = err\<rparr> \<longrightarrow>
        code_exec_python env False code None
          = Inr \<lparr>returncode = rc, stdout = lit ''exp'' @ rstrip rest, stderr = strip err\<rparr>)"
proof -
  have ok: "code_exec_python env False code packages
      = run_command env [lit ''python3'', lit ''-c'', lit ''print('exp')\<newline>'' @ code]"
    if "install_dependencies env packages (lit ''pip'') = Inr install_result"
      and "returncode install_result = 0" for packages install_result
    using that by (simp add: code_exec_python_def)
  have none: "install_dependencies env None (lit ''pip'')
      = Inr \<lparr>returncode = 0, stdout = [], stderr = []\<rparr>"
    and empty: "install_dependencies env (Some []) (lit ''pip'')
      = Inr \<lparr>returncode = 0, stdout = [], stderr = []\<rparr>"
    by (simp_all add: install_dependencies_def)
  have differs: "lit ''print('exp')\<newline>'' @ code \<noteq> code"
  proof
    assume "lit ''print('exp')\<newline>'' @ code = code"
    then have "length (lit ''print('exp')\<newline>'' @ code) = length code"
      by simp
    then show False
      by (simp add: lit_def)
  qed
  have reported: "code_exec_python env False code None
      = Inr \<lparr>returncode = rc, stdout = lit ''exp'' @ rstrip rest, stderr = strip err\<rparr>"
    if "subprocess_run env [lit ''python3'', lit ''-c'', lit ''print('exp')\<newline>'' @ code]
          (Some 10) = Inr \<lparr>returncode = rc, stdout = lit ''exp'' @ rest, stderr = err\<rparr>"
    using that by (simp add: ok [OF none] run_command_def strip_keeps_exp)
  from ok [OF none] ok [OF empty] differs reported show ?thesis
    by (auto simp add: code_exec_python_def)
qed

theorem code_exec_python_prefix_witness:
  "install_dependencies sample_os None (lit ''pip'')
     = Inr \<lparr>returncode = 0, stdout = [], stderr = []\<rparr>
   \<and> subprocess_run sample_os
         [lit ''python3'', lit ''-c'', lit ''print('exp')\<newline>'' @ lit ''print(1)''] (Some 10)
       = Inr \<lparr>returncode = 0, stdout = lit ''exp'' @ lit ''\<newline>1\<newline>'', stderr = []\<rparr>
   \<and> rstrip (lit ''\<newline>1\<newline>'') = lit ''\<newline>1''
   \<and> code_exec_python sample_os False (lit ''print(1)'') None
       = Inr \<lparr>returncode = 0, stdout = lit ''exp'' @ lit ''\<newline>1'', stderr = []\<rparr>"
proof -
  have dep: "install_dependencies sample_os None (lit ''pip'')
     = Inr \<lparr>returncode = 0, stdout = [], stderr = []\<rparr>"
    by (simp add: install_dependencies_def)
  have run: "subprocess_run sample_os
         [lit ''python3'', lit ''-c'', lit ''print('exp')\<newline>'' @ lit ''print(1)''] (Some 10)
       = Inr \<lparr>returncode = 0, stdout = lit ''exp'' @ lit ''\<newline>1\<newline>'', stderr = []\<rparr>"
    by (simp add: sample_os_def lit_def)
  have s: "rstrip (lit ''\<newline>1\<newline>'') = lit ''\<newline>1''" "strip [] = []"
    by (simp_all add: strip_def lstrip_def rstrip_def lit_def py_isspace_def)
  have "code_exec_python sample_os False (lit ''print(1)'') None
      = Inr \<lparr>returncode = 0, stdout = lit ''exp'' @ rstrip (lit ''\<newline>1\<newline>''),
             stderr = strip []\<rparr>"
    using run
      code_exec_python_prefix [where env = sample_os and packages = None
        and install_result = "\<lparr>returncode = 0, stdout = [], stderr = []\<rparr>"
        and code = "lit ''print(1)''" and rc = 0 and rest = "lit ''\<newline>1\<newline>''"
        and err = "[]"]
    by blast
  with dep run s show ?thesis
    by simp
qed

text \<open>
  C9 as stated fails in its consequence: a program can end with return code 0 and
  leave nothing on \<open>stdout\<close>. The code \<open>import os\<close>, \<open>os._exit(0)\<close> is run behind
  \<open>print('exp')\<close>; the process exits with status 0 before the buffered \<open>exp\<close> is written to
  the pipe, and the reported \<open>stdout\<close> is empty.
\<close>

theorem code_exec_python_no_exp_counterexample:
  "code_exec_python sample_os False (lit ''import os\<newline>os._exit(0)'') None
     = Inr \<lparr>returncode = 0, stdout = [], stderr = []\<rparr>
   \<and> take 3 ([] :: pystr) \<noteq> lit ''exp''"
proof -
  have "strip [] = []"
    by (simp add: strip_def lstrip_def rstrip_def)
  then show ?thesis
    by (simp add: code_exec_python_def install_dependencies_def run_command_def sample_os_def
        lit_def)
qed

end
